theory Spec2Isabelle
  imports Main "HOL-Library.Sublist"
begin

section \<open>Python values shared by both modules\<close>

text \<open>
  A value of Python's \<^verbatim>\<open>json\<close> module: what \<^verbatim>\<open>json.loads\<close> returns and what
  \<^verbatim>\<open>json.dumps\<close> receives. A dict is an association list in insertion order, its keys
  distinct, as in a Python dict. A float is kept as its literal: no tool computes with one.
  \<^verbatim>\<open>None\<close> is \<open>JNull\<close>.
\<close>

datatype json =
    JNull
  | JBool bool
  | JInt int
  | JFloat string
  | JStr string
  | JArr "json list"
  | JObj "(string \<times> json) list"

text \<open>
  An exception: its class and \<^verbatim>\<open>str(e)\<close>. The classes are the ones the tools tell apart
  (\<^verbatim>\<open>mcp_atlassian.exceptions\<close> and the builtins raised on the way). \<open>OtherValueError\<close>
  is any other subclass of \<^verbatim>\<open>ValueError\<close> (\<^verbatim>\<open>UnicodeError\<close>, say); \<open>OtherException\<close> is
  any class that is none of these and no \<^verbatim>\<open>ValueError\<close>.
\<close>

datatype exn_class =
    MCPAtlassianNotFoundError
  | MCPAtlassianAuthenticationError
  | ValueError
  | JSONDecodeError
  | ValidationError
  | OtherValueError
  | AttributeError
  | OtherException

datatype exn = Exn (cls: exn_class) (str: string)

text \<open>
  \<^verbatim>\<open>isinstance(e, ValueError)\<close> holds for the class and for every subclass:
  \<^verbatim>\<open>json.JSONDecodeError\<close> and pydantic's \<^verbatim>\<open>ValidationError\<close> are subclasses. The two
  classes of \<^verbatim>\<open>mcp_atlassian.exceptions\<close> are taken to derive from \<^verbatim>\<open>Exception\<close>
  directly.
\<close>

definition isinstance_ValueError :: "exn \<Rightarrow> bool" where
  "isinstance_ValueError e =
     (cls e = ValueError \<or> cls e = JSONDecodeError \<or> cls e = ValidationError \<or>
      cls e = OtherValueError)"

text \<open>The \<^verbatim>\<open>logging\<close> module: a record has a level, a message and, when written by
  \<^verbatim>\<open>logger.exception\<close>, the exception with its traceback.\<close>

datatype log_level = DEBUG | INFO | WARNING | ERROR

fun levelno :: "log_level \<Rightarrow> nat" where
  "levelno DEBUG = 10"
| "levelno INFO = 20"
| "levelno WARNING = 30"
| "levelno ERROR = 40"

datatype log_record = LogRecord (level: log_level) (message: string) (exc_info: "exn option")

definition logger_info :: "string \<Rightarrow> log_record" where
  "logger_info m = LogRecord INFO m None"

definition logger_warning :: "string \<Rightarrow> log_record" where
  "logger_warning m = LogRecord WARNING m None"

definition logger_log :: "log_level \<Rightarrow> string \<Rightarrow> log_record" where
  "logger_log l m = LogRecord l m None"

definition logger_exception :: "string \<Rightarrow> exn \<Rightarrow> log_record" where
  "logger_exception m e = LogRecord ERROR m (Some e)"

text \<open>
  \<^verbatim>\<open>str.lower()\<close> on the bytes of a string: the ASCII capitals change, every other byte
  stays. Python also lowers capitals beyond ASCII, but none of them to a letter of the
  words the code compares with (\<^verbatim>\<open>true\<close>, \<^verbatim>\<open>yes\<close>, \<^verbatim>\<open>not found\<close>), so membership and
  containment of those words agree.
\<close>

definition lower_char :: "char \<Rightarrow> char" where
  "lower_char c =
     (case map_of (zip ''ABCDEFGHIJKLMNOPQRSTUVWXYZ'' ''abcdefghijklmnopqrstuvwxyz'') c of
        Some l \<Rightarrow> l
      | None \<Rightarrow> c)"

definition lower :: "string \<Rightarrow> string" where
  "lower s = map lower_char s"

section \<open>utils/environment.py: the credential resolver\<close>

text \<open>\<^verbatim>\<open>os.environ\<close>, read through \<^verbatim>\<open>os.getenv\<close>.\<close>

type_synonym environ = "string \<Rightarrow> string option"

definition getenv :: "environ \<Rightarrow> string \<Rightarrow> string option" where
  "getenv env k = env k"

definition getenv_default :: "environ \<Rightarrow> string \<Rightarrow> string \<Rightarrow> string" where
  "getenv_default env k d = (case env k of Some v \<Rightarrow> v | None \<Rightarrow> d)"

text \<open>Truth value of \<^verbatim>\<open>os.getenv(k)\<close>: a variable that is unset or empty is falsy.\<close>

definition truthy :: "string option \<Rightarrow> bool" where
  "truthy v = (case v of None \<Rightarrow> False | Some s \<Rightarrow> s \<noteq> [])"

text \<open>The value of a truthy variable, for the branch guarded by \<^verbatim>\<open>if url:\<close>.\<close>

definition truthy_value :: "string option \<Rightarrow> string option" where
  "truthy_value v = (case v of None \<Rightarrow> None | Some s \<Rightarrow> if s = [] then None else Some s)"

text \<open>Lines 13 to 66: the Confluence block. \<open>is_atlassian_cloud_url\<close> (utils/urls.py) is a
  parameter. The result is \<^verbatim>\<open>confluence_is_setup\<close> and the records logged.\<close>

definition confluence_block :: "(string \<Rightarrow> bool) \<Rightarrow> environ \<Rightarrow> bool \<times> log_record list" where
  "confluence_block is_atlassian_cloud_url env =
     (case truthy_value (getenv env ''CONFLUENCE_URL'') of
        Some confluence_url \<Rightarrow>
          (let is_cloud = is_atlassian_cloud_url confluence_url in
           if list_all truthy
                [getenv env ''ATLASSIAN_OAUTH_CLIENT_ID'',
                 getenv env ''ATLASSIAN_OAUTH_CLIENT_SECRET'',
                 getenv env ''ATLASSIAN_OAUTH_REDIRECT_URI'',
                 getenv env ''ATLASSIAN_OAUTH_SCOPE'',
                 getenv env ''ATLASSIAN_OAUTH_CLOUD_ID'']
           then (True, [logger_info
                  ''Using Confluence OAuth 2.0 (3LO) authentication (Cloud-only features)''])
           else if list_all truthy
                [getenv env ''ATLASSIAN_OAUTH_ACCESS_TOKEN'',
                 getenv env ''ATLASSIAN_OAUTH_CLOUD_ID'']
           then (True, [logger_info
                  (''Using Confluence OAuth 2.0 (3LO) authentication (Cloud-only features) '' @
                   ''with provided access token'')])
           else if is_cloud
           then (if list_all truthy
                      [getenv env ''CONFLUENCE_USERNAME'', getenv env ''CONFLUENCE_API_TOKEN'']
                 then (True, [logger_info
                        ''Using Confluence Cloud Basic Authentication (API Token)''])
                 else (False, []))
           else (if truthy (getenv env ''CONFLUENCE_PERSONAL_TOKEN'') \<or>
                    (truthy (getenv env ''CONFLUENCE_USERNAME'') \<and>
                     truthy (getenv env ''CONFLUENCE_API_TOKEN''))
                 then (True, [logger_info
                        ''Using Confluence Server/Data Center authentication (PAT or Basic Auth)''])
                 else (False, [])))
      | None \<Rightarrow>
          (if lower (getenv_default env ''ATLASSIAN_OAUTH_ENABLE'' '''') \<in>
                set [''true'', ''1'', ''yes'']
           then (True, [logger_info
                  ''Using Confluence minimal OAuth configuration - expecting user-provided tokens via headers''])
           else (False, [])))"

text \<open>Lines 68 to 119: the Jira block.\<close>

definition jira_block :: "(string \<Rightarrow> bool) \<Rightarrow> environ \<Rightarrow> bool \<times> log_record list" where
  "jira_block is_atlassian_cloud_url env =
     (case truthy_value (getenv env ''JIRA_URL'') of
        Some jira_url \<Rightarrow>
          (let is_cloud = is_atlassian_cloud_url jira_url in
           if list_all truthy
                [getenv env ''ATLASSIAN_OAUTH_CLIENT_ID'',
                 getenv env ''ATLASSIAN_OAUTH_CLIENT_SECRET'',
                 getenv env ''ATLASSIAN_OAUTH_REDIRECT_URI'',
                 getenv env ''ATLASSIAN_OAUTH_SCOPE'',
                 getenv env ''ATLASSIAN_OAUTH_CLOUD_ID'']
           then (True, [logger_info
                  ''Using Jira OAuth 2.0 (3LO) authentication (Cloud-only features)''])
           else if list_all truthy
                [getenv env ''ATLASSIAN_OAUTH_ACCESS_TOKEN'',
                 getenv env ''ATLASSIAN_OAUTH_CLOUD_ID'']
           then (True, [logger_info
                  (''Using Jira OAuth 2.0 (3LO) authentication (Cloud-only features) '' @
                   ''with provided access token'')])
           else if is_cloud
           then (if list_all truthy
                      [getenv env ''JIRA_USERNAME'', getenv env ''JIRA_API_TOKEN'']
                 then (True, [logger_info ''Using Jira Cloud Basic Authentication (API Token)''])
                 else (False, []))
           else (if truthy (getenv env ''JIRA_PERSONAL_TOKEN'') \<or>
                    (truthy (getenv env ''JIRA_USERNAME'') \<and>
                     truthy (getenv env ''JIRA_API_TOKEN''))
                 then (True, [logger_info
                        ''Using Jira Server/Data Center authentication (PAT or Basic Auth)''])
                 else (False, [])))
      | None \<Rightarrow>
          (if lower (getenv_default env ''ATLASSIAN_OAUTH_ENABLE'' '''') \<in>
                set [''true'', ''1'', ''yes'']
           then (True, [logger_info
                  ''Using Jira minimal OAuth configuration - expecting user-provided tokens via headers''])
           else (False, [])))"

text \<open>Lines 121 to 129: the Zephyr block.\<close>

definition zephyr_block :: "environ \<Rightarrow> bool \<times> log_record list" where
  "zephyr_block env =
     (if truthy (getenv env ''ZEPHYR_API_TOKEN'') \<and> truthy (getenv env ''ZEPHYR_BASE_URL'')
      then (True, [logger_info ''Using Zephyr test management Bearer token authentication''])
      else if truthy (getenv env ''ZEPHYR_API_TOKEN'') \<and>
              \<not> truthy (getenv env ''ZEPHYR_BASE_URL'')
      then (False, [logger_warning
             ''Zephyr API token found but ZEPHYR_BASE_URL is missing - Zephyr service will not be available''])
      else if truthy (getenv env ''ZEPHYR_BASE_URL'') \<and>
              \<not> truthy (getenv env ''ZEPHYR_API_TOKEN'')
      then (False, [logger_warning
             ''Zephyr base URL found but ZEPHYR_API_TOKEN is missing - Zephyr service will not be available''])
      else (False, []))"

text \<open>The returned dict \<^verbatim>\<open>{"confluence": ..., "jira": ..., "zephyr": ...}\<close>, a field for
  each key.\<close>

record services =
  svc_confluence :: bool
  svc_jira :: bool
  svc_zephyr :: bool

text \<open>\<^verbatim>\<open>get_available_services\<close>: the three blocks in the source's order, then lines 131 to
  144. The second component is everything logged, in order.\<close>

definition get_available_services ::
    "(string \<Rightarrow> bool) \<Rightarrow> environ \<Rightarrow> services \<times> log_record list" where
  "get_available_services is_atlassian_cloud_url env =
     (let (confluence_is_setup, log1) = confluence_block is_atlassian_cloud_url env;
          (jira_is_setup, log2) = jira_block is_atlassian_cloud_url env;
          (zephyr_is_setup, log3) = zephyr_block env;
          log4 = (if \<not> confluence_is_setup
                  then [logger_info
                         ''Confluence is not configured or required environment variables are missing.'']
                  else []);
          log5 = (if \<not> jira_is_setup
                  then [logger_info
                         ''Jira is not configured or required environment variables are missing.'']
                  else []);
          log6 = (if \<not> zephyr_is_setup
                  then [logger_info
                         ''Zephyr is not configured or required environment variable (ZEPHYR_API_TOKEN) is missing.'']
                  else [])
      in (\<lparr>svc_confluence = confluence_is_setup, svc_jira = jira_is_setup,
           svc_zephyr = zephyr_is_setup\<rparr>,
          log1 @ log2 @ log3 @ log4 @ log5 @ log6))"

text \<open>The five OAuth client-credential variables, all truthy.\<close>

definition oauth_client_credentials_present :: "environ \<Rightarrow> bool" where
  "oauth_client_credentials_present env =
     (truthy (getenv env ''ATLASSIAN_OAUTH_CLIENT_ID'') \<and>
      truthy (getenv env ''ATLASSIAN_OAUTH_CLIENT_SECRET'') \<and>
      truthy (getenv env ''ATLASSIAN_OAUTH_REDIRECT_URI'') \<and>
      truthy (getenv env ''ATLASSIAN_OAUTH_SCOPE'') \<and>
      truthy (getenv env ''ATLASSIAN_OAUTH_CLOUD_ID''))"

text \<open>The value of \<^verbatim>\<open>ATLASSIAN_OAUTH_ENABLE\<close> is one of the three accepted words, in any
  case.\<close>

definition oauth_enabled :: "environ \<Rightarrow> bool" where
  "oauth_enabled env =
     (lower (getenv_default env ''ATLASSIAN_OAUTH_ENABLE'' '''') \<in> set [''true'', ''1'', ''yes''])"

section \<open>servers/zephyr.py: the tools\<close>

subsection \<open>Collaborators\<close>

text \<open>A model object of \<^verbatim>\<open>mcp_atlassian.models.zephyr\<close> as a tool sees it: through
  \<^verbatim>\<open>to_simplified_dict()\<close>, taken as correct.\<close>

datatype entity = Entity (to_simplified_dict: json)

text \<open>A \<^verbatim>\<open>TestStepRequest\<close> object: \<^verbatim>\<open>step\<close>, \<^verbatim>\<open>data\<close> and \<^verbatim>\<open>result\<close>.\<close>

datatype step_request =
  StepRequest (req_step: string) (req_data: "string option") (req_result: "string option")

text \<open>
  The Zephyr client (\<^verbatim>\<open>mcp_atlassian.zephyr\<close>): one field for each method a tool calls.
  A method returns its value or raises.
\<close>

record zephyr_client =
  zephyr_get_testcase :: "string \<Rightarrow> string option \<Rightarrow> exn + entity"
  zephyr_create_testcase :: "json \<Rightarrow> exn + json"
  zephyr_update_testcase :: "string \<Rightarrow> json \<Rightarrow> exn + unit"
  zephyr_delete_testcase :: "string \<Rightarrow> exn + unit"
  zephyr_search_testcases :: "string option \<Rightarrow> string option \<Rightarrow> int \<Rightarrow> int \<Rightarrow> exn + entity list"
  zephyr_get_testplan :: "string \<Rightarrow> string option \<Rightarrow> exn + entity"
  zephyr_create_testplan :: "json \<Rightarrow> exn + json"
  zephyr_search_testplans :: "string option \<Rightarrow> string option \<Rightarrow> int \<Rightarrow> int \<Rightarrow> exn + entity list"
  zephyr_get_testrun :: "string \<Rightarrow> string option \<Rightarrow> exn + entity"
  zephyr_create_testrun :: "json \<Rightarrow> exn + json"
  zephyr_search_testruns :: "string option \<Rightarrow> string option \<Rightarrow> int \<Rightarrow> int \<Rightarrow> exn + entity list"
  zephyr_create_testresult :: "json \<Rightarrow> exn + json"
  zephyr_get_testcase_latest_result :: "string \<Rightarrow> exn + entity option"
  zephyr_get_testrun_results :: "string \<Rightarrow> exn + entity list"
  zephyr_get_test_steps :: "string \<Rightarrow> string \<Rightarrow> exn + entity"
  zephyr_add_test_step :: "string \<Rightarrow> string \<Rightarrow> step_request \<Rightarrow> exn + entity"
  zephyr_add_multiple_test_steps :: "string \<Rightarrow> string \<Rightarrow> step_request list \<Rightarrow> exn + entity list"

text \<open>A call that reached the client, with its arguments: the call count of a test
  double is the length of the list of these.\<close>

datatype backend_call =
    Get_testcase string "string option"
  | Create_testcase json
  | Update_testcase string json
  | Delete_testcase string
  | Search_testcases "string option" "string option" int int
  | Get_testplan string "string option"
  | Create_testplan json
  | Search_testplans "string option" "string option" int int
  | Get_testrun string "string option"
  | Create_testrun json
  | Search_testruns "string option" "string option" int int
  | Create_testresult json
  | Get_testcase_latest_result string
  | Get_testrun_results string
  | Get_test_steps string string
  | Add_test_step string string step_request
  | Add_multiple_test_steps string string "step_request list"

text \<open>
  The FastMCP context of a request. \<open>zephyr_fetcher\<close> is what
  \<^verbatim>\<open>get_zephyr_fetcher(ctx)\<close> (servers/dependencies.py) does: it returns the client or
  raises. \<open>write_access\<close> is the process-wide Write-Access Flag.
\<close>

record tool_context =
  write_access :: bool
  zephyr_fetcher :: "exn + zephyr_client"

definition get_zephyr_fetcher :: "tool_context \<Rightarrow> exn + zephyr_client" where
  "get_zephyr_fetcher ctx = zephyr_fetcher ctx"

text \<open>What a tool invocation does: the dict it hands to \<^verbatim>\<open>json.dumps\<close>, the calls it made
  on the client, and the records it logged, each in order.\<close>

record outcome =
  response :: json
  backend_calls :: "backend_call list"
  logged :: "log_record list"

text \<open>\<^verbatim>\<open>response_data["error"]\<close> and \<^verbatim>\<open>response_data["success"]\<close> of an envelope.\<close>

definition envelope_get :: "json \<Rightarrow> string \<Rightarrow> json option" where
  "envelope_get r k = (case r of JObj kvs \<Rightarrow> map_of kvs k | _ \<Rightarrow> None)"

definition error_string :: "json \<Rightarrow> string" where
  "error_string r = (case envelope_get r ''error'' of Some (JStr m) \<Rightarrow> m | _ \<Rightarrow> [])"

text \<open>A single quote, for the f-strings that quote an argument.\<close>

abbreviation squote :: string where
  "squote \<equiv> [CHR 0x27]"

text \<open>\<^verbatim>\<open>str(i)\<close> of an index.\<close>

function str_nat :: "nat \<Rightarrow> string" where
  "str_nat n =
     (if n < 10 then [''0123456789'' ! n]
      else str_nat (n div 10) @ [''0123456789'' ! (n mod 10)])"
  by pat_completeness auto
termination
  by (relation "measure (\<lambda>n. n)") auto

subsection \<open>The write-access gate\<close>

text \<open>
  Modelled from the spec: the decorator \<^verbatim>\<open>check_write_access\<close> (utils/decorators.py) is
  not among the sources. The spec's gate consults the Write-Access Flag before the
  wrapped operation: when the flag is false the operation never runs and an envelope
  with \<^verbatim>\<open>success = false\<close> and an error indicating read-only mode is returned at once (logged
  below error severity, as the spec asks for expected faults); when it is true the
  operation runs and its outcome is returned unchanged. The spec fixes no wording for
  the error: \<open>read_only_error\<close> stands for it.
\<close>

definition read_only_error :: string where
  "read_only_error = ''Write access denied: the server is running in read-only mode''"

definition check_write_access :: "(tool_context \<Rightarrow> outcome) \<Rightarrow> tool_context \<Rightarrow> outcome" where
  "check_write_access func ctx =
     (if write_access ctx then func ctx
      else \<lparr>response = JObj [(''success'', JBool False), (''error'', JStr read_only_error)],
            backend_calls = [],
            logged = [logger_warning read_only_error]\<rparr>)"

subsection \<open>Test case tools\<close>

text \<open>\<^verbatim>\<open>get_testcase\<close>: the except clauses, then the tool.\<close>

definition get_testcase_except :: "string \<Rightarrow> exn \<Rightarrow> backend_call list \<Rightarrow> outcome" where
  "get_testcase_except test_case_key e calls =
     (if cls e = MCPAtlassianNotFoundError
      then \<lparr>response = JObj [(''success'', JBool False),
                              (''error'', JStr (''Test case not found: '' @ str e))],
            backend_calls = calls,
            logged = []\<rparr>
      else \<lparr>response = JObj [(''success'', JBool False),
                              (''error'', JStr (''Failed to get test case: '' @ str e))],
            backend_calls = calls,
            logged = [logger_exception (''Error getting test case '' @ test_case_key) e]\<rparr>)"

definition get_testcase :: "tool_context \<Rightarrow> string \<Rightarrow> string option \<Rightarrow> outcome" where
  "get_testcase ctx test_case_key fields_arg =
     (case get_zephyr_fetcher ctx of
        Inl e \<Rightarrow> get_testcase_except test_case_key e []
      | Inr zephyr \<Rightarrow>
          (case zephyr_get_testcase zephyr test_case_key fields_arg of
             Inl e \<Rightarrow> get_testcase_except test_case_key e [Get_testcase test_case_key fields_arg]
           | Inr test_case \<Rightarrow>
               \<lparr>response = JObj [(''success'', JBool True),
                                  (''test_case'', to_simplified_dict test_case)],
                backend_calls = [Get_testcase test_case_key fields_arg],
                logged = []\<rparr>))"

text \<open>\<^verbatim>\<open>create_testcase\<close>, decorated with \<^verbatim>\<open>@check_write_access\<close>: the except clause, the
  function as written, and the tool the decorator makes of it.\<close>

definition create_testcase_except :: "exn \<Rightarrow> backend_call list \<Rightarrow> outcome" where
  "create_testcase_except e calls =
     \<lparr>response = JObj [(''success'', JBool False),
                        (''error'', JStr (''Failed to create test case: '' @ str e))],
      backend_calls = calls,
      logged = [logger_exception (''Error creating test case'') e]\<rparr>"

definition create_testcase_fn ::
    "(string \<Rightarrow> exn + json) \<Rightarrow> tool_context \<Rightarrow> string \<Rightarrow> outcome" where
  "create_testcase_fn json_loads ctx testcase_data =
     (case get_zephyr_fetcher ctx of
        Inl e \<Rightarrow> create_testcase_except e []
      | Inr zephyr \<Rightarrow>
          (case json_loads testcase_data of
             Inl e \<Rightarrow> create_testcase_except e []
           | Inr data \<Rightarrow>
               (case zephyr_create_testcase zephyr data of
                  Inl e \<Rightarrow> create_testcase_except e [Create_testcase data]
                | Inr test_case_key \<Rightarrow>
                    \<lparr>response = JObj [(''success'', JBool True), (''test_case_key'', test_case_key)],
                     backend_calls = [Create_testcase data],
                     logged = []\<rparr>)))"

definition create_testcase ::
    "(string \<Rightarrow> exn + json) \<Rightarrow> tool_context \<Rightarrow> string \<Rightarrow> outcome" where
  "create_testcase json_loads ctx testcase_data =
     check_write_access (\<lambda>ctx. create_testcase_fn json_loads ctx testcase_data) ctx"

text \<open>\<^verbatim>\<open>update_testcase\<close>, decorated.\<close>

definition update_testcase_except :: "string \<Rightarrow> exn \<Rightarrow> backend_call list \<Rightarrow> outcome" where
  "update_testcase_except test_case_key e calls =
     (if cls e = MCPAtlassianNotFoundError
      then \<lparr>response = JObj [(''success'', JBool False),
                              (''error'', JStr (''Test case not found: '' @ str e))],
            backend_calls = calls,
            logged = []\<rparr>
      else \<lparr>response = JObj [(''success'', JBool False),
                              (''error'', JStr (''Failed to update test case: '' @ str e))],
            backend_calls = calls,
            logged = [logger_exception (''Error updating test case '' @ test_case_key) e]\<rparr>)"

definition update_testcase_fn ::
    "(string \<Rightarrow> exn + json) \<Rightarrow> tool_context \<Rightarrow> string \<Rightarrow> string \<Rightarrow> outcome" where
  "update_testcase_fn json_loads ctx test_case_key testcase_data =
     (case get_zephyr_fetcher ctx of
        Inl e \<Rightarrow> update_testcase_except test_case_key e []
      | Inr zephyr \<Rightarrow>
          (case json_loads testcase_data of
             Inl e \<Rightarrow> update_testcase_except test_case_key e []
           | Inr data \<Rightarrow>
               (case zephyr_update_testcase zephyr test_case_key data of
                  Inl e \<Rightarrow> update_testcase_except test_case_key e [Update_testcase test_case_key data]
                | Inr _ \<Rightarrow>
                    \<lparr>response = JObj [(''success'', JBool True),
                                       (''message'', JStr (''Test case '' @ test_case_key @ '' updated''))],
                     backend_calls = [Update_testcase test_case_key data],
                     logged = []\<rparr>)))"

definition update_testcase ::
    "(string \<Rightarrow> exn + json) \<Rightarrow> tool_context \<Rightarrow> string \<Rightarrow> string \<Rightarrow> outcome" where
  "update_testcase json_loads ctx test_case_key testcase_data =
     check_write_access (\<lambda>ctx. update_testcase_fn json_loads ctx test_case_key testcase_data) ctx"

text \<open>\<^verbatim>\<open>delete_testcase\<close>, decorated.\<close>

definition delete_testcase_except :: "string \<Rightarrow> exn \<Rightarrow> backend_call list \<Rightarrow> outcome" where
  "delete_testcase_except test_case_key e calls =
     (if cls e = MCPAtlassianNotFoundError
      then \<lparr>response = JObj [(''success'', JBool False),
                              (''error'', JStr (''Test case not found: '' @ str e))],
            backend_calls = calls,
            logged = []\<rparr>
      else \<lparr>response = JObj [(''success'', JBool False),
                              (''error'', JStr (''Failed to delete test case: '' @ str e))],
            backend_calls = calls,
            logged = [logger_exception (''Error deleting test case '' @ test_case_key) e]\<rparr>)"

definition delete_testcase_fn :: "tool_context \<Rightarrow> string \<Rightarrow> outcome" where
  "delete_testcase_fn ctx test_case_key =
     (case get_zephyr_fetcher ctx of
        Inl e \<Rightarrow> delete_testcase_except test_case_key e []
      | Inr zephyr \<Rightarrow>
          (case zephyr_delete_testcase zephyr test_case_key of
             Inl e \<Rightarrow> delete_testcase_except test_case_key e [Delete_testcase test_case_key]
           | Inr _ \<Rightarrow>
               \<lparr>response = JObj [(''success'', JBool True),
                                  (''message'', JStr (''Test case '' @ test_case_key @ '' deleted''))],
                backend_calls = [Delete_testcase test_case_key],
                logged = []\<rparr>))"

definition delete_testcase :: "tool_context \<Rightarrow> string \<Rightarrow> outcome" where
  "delete_testcase ctx test_case_key =
     check_write_access (\<lambda>ctx. delete_testcase_fn ctx test_case_key) ctx"

text \<open>\<^verbatim>\<open>search_testcases\<close>.\<close>

definition search_testcases_except :: "exn \<Rightarrow> backend_call list \<Rightarrow> outcome" where
  "search_testcases_except e calls =
     \<lparr>response = JObj [(''success'', JBool False),
                        (''error'', JStr (''Failed to search test cases: '' @ str e))],
      backend_calls = calls,
      logged = [logger_exception (''Error searching test cases'') e]\<rparr>"

definition search_testcases ::
    "tool_context \<Rightarrow> string option \<Rightarrow> string option \<Rightarrow> int \<Rightarrow> int \<Rightarrow> outcome" where
  "search_testcases ctx query fields_arg start_at max_results =
     (case get_zephyr_fetcher ctx of
        Inl e \<Rightarrow> search_testcases_except e []
      | Inr zephyr \<Rightarrow>
          (case zephyr_search_testcases zephyr query fields_arg start_at max_results of
             Inl e \<Rightarrow> search_testcases_except e [Search_testcases query fields_arg start_at max_results]
           | Inr test_cases \<Rightarrow>
               (let results = map to_simplified_dict test_cases in
                \<lparr>response = JObj [(''success'', JBool True),
                                   (''test_cases'', JArr results),
                                   (''count'', JInt (int (length results)))],
                 backend_calls = [Search_testcases query fields_arg start_at max_results],
                 logged = []\<rparr>)))"

subsection \<open>Test plan tools\<close>

text \<open>\<^verbatim>\<open>get_testplan\<close>: the except clauses, then the tool.\<close>

definition get_testplan_except :: "string \<Rightarrow> exn \<Rightarrow> backend_call list \<Rightarrow> outcome" where
  "get_testplan_except test_plan_key e calls =
     (if cls e = MCPAtlassianNotFoundError
      then \<lparr>response = JObj [(''success'', JBool False),
                              (''error'', JStr (''Test plan not found: '' @ str e))],
            backend_calls = calls,
            logged = []\<rparr>
      else \<lparr>response = JObj [(''success'', JBool False),
                              (''error'', JStr (''Failed to get test plan: '' @ str e))],
            backend_calls = calls,
            logged = [logger_exception (''Error getting test plan '' @ test_plan_key) e]\<rparr>)"

definition get_testplan :: "tool_context \<Rightarrow> string \<Rightarrow> string option \<Rightarrow> outcome" where
  "get_testplan ctx test_plan_key fields_arg =
     (case get_zephyr_fetcher ctx of
        Inl e \<Rightarrow> get_testplan_except test_plan_key e []
      | Inr zephyr \<Rightarrow>
          (case zephyr_get_testplan zephyr test_plan_key fields_arg of
             Inl e \<Rightarrow> get_testplan_except test_plan_key e [Get_testplan test_plan_key fields_arg]
           | Inr test_plan \<Rightarrow>
               \<lparr>response = JObj [(''success'', JBool True),
                                  (''test_plan'', to_simplified_dict test_plan)],
                backend_calls = [Get_testplan test_plan_key fields_arg],
                logged = []\<rparr>))"

text \<open>\<^verbatim>\<open>create_testplan\<close>, decorated with \<^verbatim>\<open>@check_write_access\<close>: the except clause, the
  function as written, and the tool the decorator makes of it.\<close>

definition create_testplan_except :: "exn \<Rightarrow> backend_call list \<Rightarrow> outcome" where
  "create_testplan_except e calls =
     \<lparr>response = JObj [(''success'', JBool False),
                        (''error'', JStr (''Failed to create test plan: '' @ str e))],
      backend_calls = calls,
      logged = [logger_exception (''Error creating test plan'') e]\<rparr>"

definition create_testplan_fn ::
    "(string \<Rightarrow> exn + json) \<Rightarrow> tool_context \<Rightarrow> string \<Rightarrow> outcome" where
  "create_testplan_fn json_loads ctx testplan_data =
     (case get_zephyr_fetcher ctx of
        Inl e \<Rightarrow> create_testplan_except e []
      | Inr zephyr \<Rightarrow>
          (case json_loads testplan_data of
             Inl e \<Rightarrow> create_testplan_except e []
           | Inr data \<Rightarrow>
               (case zephyr_create_testplan zephyr data of
                  Inl e \<Rightarrow> create_testplan_except e [Create_testplan data]
                | Inr test_plan_key \<Rightarrow>
                    \<lparr>response = JObj [(''success'', JBool True), (''test_plan_key'', test_plan_key)],
                     backend_calls = [Create_testplan data],
                     logged = []\<rparr>)))"

definition create_testplan ::
    "(string \<Rightarrow> exn + json) \<Rightarrow> tool_context \<Rightarrow> string \<Rightarrow> outcome" where
  "create_testplan json_loads ctx testplan_data =
     check_write_access (\<lambda>ctx. create_testplan_fn json_loads ctx testplan_data) ctx"

text \<open>\<^verbatim>\<open>search_testplans\<close>.\<close>

definition search_testplans_except :: "exn \<Rightarrow> backend_call list \<Rightarrow> outcome" where
  "search_testplans_except e calls =
     \<lparr>response = JObj [(''success'', JBool False),
                        (''error'', JStr (''Failed to search test plans: '' @ str e))],
      backend_calls = calls,
      logged = [logger_exception (''Error searching test plans'') e]\<rparr>"

definition search_testplans ::
    "tool_context \<Rightarrow> string option \<Rightarrow> string option \<Rightarrow> int \<Rightarrow> int \<Rightarrow> outcome" where
  "search_testplans ctx query fields_arg start_at max_results =
     (case get_zephyr_fetcher ctx of
        Inl e \<Rightarrow> search_testplans_except e []
      | Inr zephyr \<Rightarrow>
          (case zephyr_search_testplans zephyr query fields_arg start_at max_results of
             Inl e \<Rightarrow> search_testplans_except e [Search_testplans query fields_arg start_at max_results]
           | Inr test_plans \<Rightarrow>
               (let results = map to_simplified_dict test_plans in
                \<lparr>response = JObj [(''success'', JBool True),
                                   (''test_plans'', JArr results),
                                   (''count'', JInt (int (length results)))],
                 backend_calls = [Search_testplans query fields_arg start_at max_results],
                 logged = []\<rparr>)))"

subsection \<open>Test run tools\<close>

text \<open>\<^verbatim>\<open>get_testrun\<close>: the except clauses, then the tool.\<close>

definition get_testrun_except :: "string \<Rightarrow> exn \<Rightarrow> backend_call list \<Rightarrow> outcome" where
  "get_testrun_except test_run_key e calls =
     (if cls e = MCPAtlassianNotFoundError
      then \<lparr>response = JObj [(''success'', JBool False),
                              (''error'', JStr (''Test run not found: '' @ str e))],
            backend_calls = calls,
            logged = []\<rparr>
      else \<lparr>response = JObj [(''success'', JBool False),
                              (''error'', JStr (''Failed to get test run: '' @ str e))],
            backend_calls = calls,
            logged = [logger_exception (''Error getting test run '' @ test_run_key) e]\<rparr>)"

definition get_testrun :: "tool_context \<Rightarrow> string \<Rightarrow> string option \<Rightarrow> outcome" where
  "get_testrun ctx test_run_key fields_arg =
     (case get_zephyr_fetcher ctx of
        Inl e \<Rightarrow> get_testrun_except test_run_key e []
      | Inr zephyr \<Rightarrow>
          (case zephyr_get_testrun zephyr test_run_key fields_arg of
             Inl e \<Rightarrow> get_testrun_except test_run_key e [Get_testrun test_run_key fields_arg]
           | Inr test_run \<Rightarrow>
               \<lparr>response = JObj [(''success'', JBool True),
                                  (''test_run'', to_simplified_dict test_run)],
                backend_calls = [Get_testrun test_run_key fields_arg],
                logged = []\<rparr>))"

text \<open>\<^verbatim>\<open>create_testrun\<close>, decorated with \<^verbatim>\<open>@check_write_access\<close>: the except clause, the
  function as written, and the tool the decorator makes of it.\<close>

definition create_testrun_except :: "exn \<Rightarrow> backend_call list \<Rightarrow> outcome" where
  "create_testrun_except e calls =
     \<lparr>response = JObj [(''success'', JBool False),
                        (''error'', JStr (''Failed to create test run: '' @ str e))],
      backend_calls = calls,
      logged = [logger_exception (''Error creating test run'') e]\<rparr>"

definition create_testrun_fn ::
    "(string \<Rightarrow> exn + json) \<Rightarrow> tool_context \<Rightarrow> string \<Rightarrow> outcome" where
  "create_testrun_fn json_loads ctx testrun_data =
     (case get_zephyr_fetcher ctx of
        Inl e \<Rightarrow> create_testrun_except e []
      | Inr zephyr \<Rightarrow>
          (case json_loads testrun_data of
             Inl e \<Rightarrow> create_testrun_except e []
           | Inr data \<Rightarrow>
               (case zephyr_create_testrun zephyr data of
                  Inl e \<Rightarrow> create_testrun_except e [Create_testrun data]
                | Inr test_run_key \<Rightarrow>
                    \<lparr>response = JObj [(''success'', JBool True), (''test_run_key'', test_run_key)],
                     backend_calls = [Create_testrun data],
                     logged = []\<rparr>)))"

definition create_testrun ::
    "(string \<Rightarrow> exn + json) \<Rightarrow> tool_context \<Rightarrow> string \<Rightarrow> outcome" where
  "create_testrun json_loads ctx testrun_data =
     check_write_access (\<lambda>ctx. create_testrun_fn json_loads ctx testrun_data) ctx"

text \<open>\<^verbatim>\<open>search_testruns\<close>.\<close>

definition search_testruns_except :: "exn \<Rightarrow> backend_call list \<Rightarrow> outcome" where
  "search_testruns_except e calls =
     \<lparr>response = JObj [(''success'', JBool False),
                        (''error'', JStr (''Failed to search test runs: '' @ str e))],
      backend_calls = calls,
      logged = [logger_exception (''Error searching test runs'') e]\<rparr>"

definition search_testruns ::
    "tool_context \<Rightarrow> string option \<Rightarrow> string option \<Rightarrow> int \<Rightarrow> int \<Rightarrow> outcome" where
  "search_testruns ctx query fields_arg start_at max_results =
     (case get_zephyr_fetcher ctx of
        Inl e \<Rightarrow> search_testruns_except e []
      | Inr zephyr \<Rightarrow>
          (case zephyr_search_testruns zephyr query fields_arg start_at max_results of
             Inl e \<Rightarrow> search_testruns_except e [Search_testruns query fields_arg start_at max_results]
           | Inr test_runs \<Rightarrow>
               (let results = map to_simplified_dict test_runs in
                \<lparr>response = JObj [(''success'', JBool True),
                                   (''test_runs'', JArr results),
                                   (''count'', JInt (int (length results)))],
                 backend_calls = [Search_testruns query fields_arg start_at max_results],
                 logged = []\<rparr>)))"

subsection \<open>Test result tools\<close>

text \<open>\<^verbatim>\<open>create_testresult\<close>, decorated with \<^verbatim>\<open>@check_write_access\<close>: the except clause, the
  function as written, and the tool the decorator makes of it.\<close>

definition create_testresult_except :: "exn \<Rightarrow> backend_call list \<Rightarrow> outcome" where
  "create_testresult_except e calls =
     \<lparr>response = JObj [(''success'', JBool False),
                        (''error'', JStr (''Failed to create test result: '' @ str e))],
      backend_calls = calls,
      logged = [logger_exception (''Error creating test result'') e]\<rparr>"

definition create_testresult_fn ::
    "(string \<Rightarrow> exn + json) \<Rightarrow> tool_context \<Rightarrow> string \<Rightarrow> outcome" where
  "create_testresult_fn json_loads ctx testresult_data =
     (case get_zephyr_fetcher ctx of
        Inl e \<Rightarrow> create_testresult_except e []
      | Inr zephyr \<Rightarrow>
          (case json_loads testresult_data of
             Inl e \<Rightarrow> create_testresult_except e []
           | Inr data \<Rightarrow>
               (case zephyr_create_testresult zephyr data of
                  Inl e \<Rightarrow> create_testresult_except e [Create_testresult data]
                | Inr test_result_id \<Rightarrow>
                    \<lparr>response = JObj [(''success'', JBool True), (''test_result_id'', test_result_id)],
                     backend_calls = [Create_testresult data],
                     logged = []\<rparr>)))"

definition create_testresult ::
    "(string \<Rightarrow> exn + json) \<Rightarrow> tool_context \<Rightarrow> string \<Rightarrow> outcome" where
  "create_testresult json_loads ctx testresult_data =
     check_write_access (\<lambda>ctx. create_testresult_fn json_loads ctx testresult_data) ctx"

text \<open>\<^verbatim>\<open>get_testcase_latest_result\<close>. The client returns a result object, which is
  truthy, or \<^verbatim>\<open>None\<close>.\<close>

definition get_testcase_latest_result_except :: "string \<Rightarrow> exn \<Rightarrow> backend_call list \<Rightarrow> outcome" where
  "get_testcase_latest_result_except test_case_key e calls =
     \<lparr>response = JObj [(''success'', JBool False),
                        (''error'', JStr (''Failed to get latest test result: '' @ str e))],
      backend_calls = calls,
      logged = [logger_exception (''Error getting latest result for test case '' @ test_case_key) e]\<rparr>"

definition get_testcase_latest_result :: "tool_context \<Rightarrow> string \<Rightarrow> outcome" where
  "get_testcase_latest_result ctx test_case_key =
     (case get_zephyr_fetcher ctx of
        Inl e \<Rightarrow> get_testcase_latest_result_except test_case_key e []
      | Inr zephyr \<Rightarrow>
          (case zephyr_get_testcase_latest_result zephyr test_case_key of
             Inl e \<Rightarrow>
               get_testcase_latest_result_except test_case_key e
                 [Get_testcase_latest_result test_case_key]
           | Inr (Some test_result) \<Rightarrow>
               \<lparr>response = JObj [(''success'', JBool True),
                                  (''test_result'', to_simplified_dict test_result)],
                backend_calls = [Get_testcase_latest_result test_case_key],
                logged = []\<rparr>
           | Inr None \<Rightarrow>
               \<lparr>response = JObj [(''success'', JBool True),
                                  (''test_result'', JNull),
                                  (''message'', JStr ''No results found'')],
                backend_calls = [Get_testcase_latest_result test_case_key],
                logged = []\<rparr>))"

text \<open>\<^verbatim>\<open>get_testrun_results\<close>.\<close>

definition get_testrun_results_except :: "string \<Rightarrow> exn \<Rightarrow> backend_call list \<Rightarrow> outcome" where
  "get_testrun_results_except test_run_key e calls =
     (if cls e = MCPAtlassianNotFoundError
      then \<lparr>response = JObj [(''success'', JBool False),
                              (''error'', JStr (''Test run not found: '' @ str e))],
            backend_calls = calls,
            logged = []\<rparr>
      else \<lparr>response = JObj [(''success'', JBool False),
                              (''error'', JStr (''Failed to get test run results: '' @ str e))],
            backend_calls = calls,
            logged = [logger_exception (''Error getting test results for test run '' @ test_run_key) e]\<rparr>)"

definition get_testrun_results :: "tool_context \<Rightarrow> string \<Rightarrow> outcome" where
  "get_testrun_results ctx test_run_key =
     (case get_zephyr_fetcher ctx of
        Inl e \<Rightarrow> get_testrun_results_except test_run_key e []
      | Inr zephyr \<Rightarrow>
          (case zephyr_get_testrun_results zephyr test_run_key of
             Inl e \<Rightarrow> get_testrun_results_except test_run_key e [Get_testrun_results test_run_key]
           | Inr test_results \<Rightarrow>
               (let results = map to_simplified_dict test_results in
                \<lparr>response = JObj [(''success'', JBool True),
                                   (''test_results'', JArr results),
                                   (''count'', JInt (int (length results)))],
                 backend_calls = [Get_testrun_results test_run_key],
                 logged = []\<rparr>)))"

subsection \<open>The test step tools\<close>

text \<open>\<^verbatim>\<open>get_test_steps\<close>: the except clause (lines 554 to 581), then the tool. The dict
  returned carries \<^verbatim>\<open>str(e)\<close>; \<^verbatim>\<open>error_message\<close> goes to the log only.\<close>

definition get_test_steps_except ::
    "string \<Rightarrow> string \<Rightarrow> exn \<Rightarrow> backend_call list \<Rightarrow> outcome" where
  "get_test_steps_except issue_id project_id e calls =
     (let (log_level, error_message, logged_so_far) =
            (if isinstance_ValueError e \<and> sublist ''not found'' (lower (str e))
             then (WARNING, str e, [])
             else if cls e = MCPAtlassianAuthenticationError
             then (ERROR, ''Authentication/Permission Error: '' @ str e, [])
             else (ERROR, ''An unexpected error occurred while fetching test steps.'',
                   [logger_exception
                      (''Unexpected error in get_test_steps for issue '' @ squote @ issue_id @
                       squote @ '':'') e]));
          error_result = JObj [(''success'', JBool False),
                               (''error'', JStr (str e)),
                               (''issue_id'', JStr issue_id),
                               (''project_id'', JStr project_id)]
      in \<lparr>response = error_result,
          backend_calls = calls,
          logged = logged_so_far @
            [logger_log log_level
               (''get_test_steps failed for issue '' @ squote @ issue_id @ squote @ '': '' @
                error_message)]\<rparr>)"

definition get_test_steps :: "tool_context \<Rightarrow> string \<Rightarrow> string \<Rightarrow> outcome" where
  "get_test_steps ctx issue_id project_id =
     (case get_zephyr_fetcher ctx of
        Inl e \<Rightarrow> get_test_steps_except issue_id project_id e []
      | Inr zephyr \<Rightarrow>
          (case zephyr_get_test_steps zephyr issue_id project_id of
             Inl e \<Rightarrow>
               get_test_steps_except issue_id project_id e [Get_test_steps issue_id project_id]
           | Inr test_steps \<Rightarrow>
               (let result = to_simplified_dict test_steps in
                \<lparr>response = JObj [(''success'', JBool True), (''test_steps'', result)],
                 backend_calls = [Get_test_steps issue_id project_id],
                 logged = []\<rparr>)))"

text \<open>\<^verbatim>\<open>add_test_step\<close>, decorated (lines 639 to 683). The constructor of
  \<^verbatim>\<open>TestStepRequest\<close> (models/zephyr.py) is a parameter: it gets the three keyword
  arguments as Python values and returns the object or raises.\<close>

definition add_test_step_except ::
    "string \<Rightarrow> string \<Rightarrow> exn \<Rightarrow> backend_call list \<Rightarrow> outcome" where
  "add_test_step_except issue_id project_id e calls =
     (let log_level = ERROR;
          (error_message, logged_so_far) =
            (if cls e = MCPAtlassianAuthenticationError
             then (''Authentication/Permission Error: '' @ str e, [])
             else (''An unexpected error occurred while adding the test step.'',
                   [logger_exception
                      (''Unexpected error in add_test_step for issue '' @ squote @ issue_id @
                       squote @ '':'') e]));
          error_result = JObj [(''success'', JBool False),
                               (''error'', JStr (str e)),
                               (''issue_id'', JStr issue_id),
                               (''project_id'', JStr project_id)]
      in \<lparr>response = error_result,
          backend_calls = calls,
          logged = logged_so_far @
            [logger_log log_level
               (''add_test_step failed for issue '' @ squote @ issue_id @ squote @ '': '' @
                error_message)]\<rparr>)"

definition optional_str :: "string option \<Rightarrow> json" where
  "optional_str v = (case v of None \<Rightarrow> JNull | Some s \<Rightarrow> JStr s)"

definition add_test_step_fn ::
    "(json \<Rightarrow> json \<Rightarrow> json \<Rightarrow> exn + step_request) \<Rightarrow> tool_context \<Rightarrow>
     string \<Rightarrow> string \<Rightarrow> string \<Rightarrow> string option \<Rightarrow> string option \<Rightarrow> outcome" where
  "add_test_step_fn TestStepRequest_init ctx issue_id project_id step_arg data_arg result_arg =
     (case get_zephyr_fetcher ctx of
        Inl e \<Rightarrow> add_test_step_except issue_id project_id e []
      | Inr zephyr \<Rightarrow>
          (case TestStepRequest_init (JStr step_arg) (optional_str data_arg)
                  (optional_str result_arg) of
             Inl e \<Rightarrow> add_test_step_except issue_id project_id e []
           | Inr step_request \<Rightarrow>
               (case zephyr_add_test_step zephyr issue_id project_id step_request of
                  Inl e \<Rightarrow>
                    add_test_step_except issue_id project_id e
                      [Add_test_step issue_id project_id step_request]
                | Inr test_step \<Rightarrow>
                    (let result_data = to_simplified_dict test_step in
                     \<lparr>response = JObj [(''success'', JBool True),
                                        (''test_step'', result_data),
                                        (''issue_id'', JStr issue_id),
                                        (''project_id'', JStr project_id)],
                      backend_calls = [Add_test_step issue_id project_id step_request],
                      logged = []\<rparr>))))"

definition add_test_step ::
    "(json \<Rightarrow> json \<Rightarrow> json \<Rightarrow> exn + step_request) \<Rightarrow> tool_context \<Rightarrow>
     string \<Rightarrow> string \<Rightarrow> string \<Rightarrow> string option \<Rightarrow> string option \<Rightarrow> outcome" where
  "add_test_step TestStepRequest_init ctx issue_id project_id step_arg data_arg result_arg =
     check_write_access
       (\<lambda>ctx. add_test_step_fn TestStepRequest_init ctx issue_id project_id step_arg data_arg
                 result_arg) ctx"

text \<open>\<^verbatim>\<open>add_multiple_test_steps\<close>, decorated (lines 729 to 810).\<close>

text \<open>The name of a value's Python type, as \<^verbatim>\<open>AttributeError\<close> prints it.\<close>

fun type_name :: "json \<Rightarrow> string" where
  "type_name JNull = ''NoneType''"
| "type_name (JBool _) = ''bool''"
| "type_name (JInt _) = ''int''"
| "type_name (JFloat _) = ''float''"
| "type_name (JStr _) = ''str''"
| "type_name (JArr _) = ''list''"
| "type_name (JObj _) = ''dict''"

text \<open>\<^verbatim>\<open>step_data.get(key, default)\<close>: only a dict has the method.\<close>

definition py_get :: "json \<Rightarrow> string \<Rightarrow> json \<Rightarrow> exn + json" where
  "py_get step_data k d =
     (case step_data of
        JObj kvs \<Rightarrow> Inr (case map_of kvs k of Some v \<Rightarrow> v | None \<Rightarrow> d)
      | _ \<Rightarrow>
          Inl (Exn AttributeError
                 (squote @ type_name step_data @ squote @ '' object has no attribute '' @
                  squote @ ''get'' @ squote)))"

text \<open>The body of the \<^verbatim>\<open>try\<close> inside the loop (lines 755 to 759): the three arguments
  are evaluated left to right, then the constructor runs.\<close>

definition make_step_request ::
    "(json \<Rightarrow> json \<Rightarrow> json \<Rightarrow> exn + step_request) \<Rightarrow> json \<Rightarrow> exn + step_request" where
  "make_step_request TestStepRequest_init step_data =
     (case py_get step_data ''step'' (JStr '''') of
        Inl e \<Rightarrow> Inl e
      | Inr s \<Rightarrow>
          (case py_get step_data ''data'' JNull of
             Inl e \<Rightarrow> Inl e
           | Inr d \<Rightarrow>
               (case py_get step_data ''result'' JNull of
                  Inl e \<Rightarrow> Inl e
                | Inr r \<Rightarrow> TestStepRequest_init s d r)))"

text \<open>The loop of lines 752 to 767 from index \<open>i\<close>, with the requests built so far: it
  ends with the index and the exception of the first element that raises, or with every
  request.\<close>

fun step_requests_loop ::
    "(json \<Rightarrow> json \<Rightarrow> json \<Rightarrow> exn + step_request) \<Rightarrow> nat \<Rightarrow> step_request list \<Rightarrow>
     json list \<Rightarrow> (nat \<times> exn) + step_request list" where
  "step_requests_loop TestStepRequest_init i step_requests [] = Inr step_requests"
| "step_requests_loop TestStepRequest_init i step_requests (step_data # rest) =
     (case make_step_request TestStepRequest_init step_data of
        Inl e \<Rightarrow> Inl (i, e)
      | Inr step_request \<Rightarrow>
          step_requests_loop TestStepRequest_init (Suc i) (step_requests @ [step_request]) rest)"

definition add_multiple_test_steps_except ::
    "string \<Rightarrow> string \<Rightarrow> exn \<Rightarrow> backend_call list \<Rightarrow> outcome" where
  "add_multiple_test_steps_except issue_id project_id e calls =
     (let log_level = ERROR;
          (error_message, logged_so_far) =
            (if cls e = MCPAtlassianAuthenticationError
             then (''Authentication/Permission Error: '' @ str e, [])
             else (''An unexpected error occurred while adding test steps.'',
                   [logger_exception
                      (''Unexpected error in add_multiple_test_steps for issue '' @ squote @
                       issue_id @ squote @ '':'') e]));
          error_result = JObj [(''success'', JBool False),
                               (''error'', JStr (str e)),
                               (''issue_id'', JStr issue_id),
                               (''project_id'', JStr project_id)]
      in \<lparr>response = error_result,
          backend_calls = calls,
          logged = logged_so_far @
            [logger_log log_level
               (''add_multiple_test_steps failed for issue '' @ squote @ issue_id @ squote @
                '': '' @ error_message)]\<rparr>)"

text \<open>An early \<^verbatim>\<open>return\<close> of lines 736 to 767: the dict, no call made, nothing logged.\<close>

definition rejected :: "string \<Rightarrow> string \<Rightarrow> string \<Rightarrow> outcome" where
  "rejected error issue_id project_id =
     \<lparr>response = JObj [(''success'', JBool False),
                        (''error'', JStr error),
                        (''issue_id'', JStr issue_id),
                        (''project_id'', JStr project_id)],
      backend_calls = [],
      logged = []\<rparr>"

definition add_multiple_test_steps_fn ::
    "(string \<Rightarrow> exn + json) \<Rightarrow> (json \<Rightarrow> json \<Rightarrow> json \<Rightarrow> exn + step_request) \<Rightarrow>
     tool_context \<Rightarrow> string \<Rightarrow> string \<Rightarrow> string \<Rightarrow> outcome" where
  "add_multiple_test_steps_fn json_loads TestStepRequest_init ctx issue_id project_id steps =
     (case get_zephyr_fetcher ctx of
        Inl e \<Rightarrow> add_multiple_test_steps_except issue_id project_id e []
      | Inr zephyr \<Rightarrow>
          (case json_loads steps of
             Inl e \<Rightarrow>
               (if cls e = JSONDecodeError
                then rejected (''Invalid JSON format for steps: '' @ str e) issue_id project_id
                else add_multiple_test_steps_except issue_id project_id e [])
           | Inr steps_data \<Rightarrow>
               (case steps_data of
                  JArr elements \<Rightarrow>
                    (case step_requests_loop TestStepRequest_init 0 [] elements of
                       Inl (i, e) \<Rightarrow>
                         rejected (''Invalid step data at index '' @ str_nat i @ '': '' @ str e)
                           issue_id project_id
                     | Inr step_requests \<Rightarrow>
                         (case zephyr_add_multiple_test_steps zephyr issue_id project_id
                                 step_requests of
                            Inl e \<Rightarrow>
                              add_multiple_test_steps_except issue_id project_id e
                                [Add_multiple_test_steps issue_id project_id step_requests]
                          | Inr created_steps \<Rightarrow>
                              (let result_data = map to_simplified_dict created_steps in
                               \<lparr>response =
                                  JObj [(''success'', JBool True),
                                        (''test_steps'', JArr result_data),
                                        (''total_requested'', JInt (int (length step_requests))),
                                        (''total_created'', JInt (int (length created_steps))),
                                        (''issue_id'', JStr issue_id),
                                        (''project_id'', JStr project_id)],
                                backend_calls =
                                  [Add_multiple_test_steps issue_id project_id step_requests],
                                logged = []\<rparr>)))
                | _ \<Rightarrow> rejected ''Steps must be a JSON array'' issue_id project_id)))"

definition add_multiple_test_steps ::
    "(string \<Rightarrow> exn + json) \<Rightarrow> (json \<Rightarrow> json \<Rightarrow> json \<Rightarrow> exn + step_request) \<Rightarrow>
     tool_context \<Rightarrow> string \<Rightarrow> string \<Rightarrow> string \<Rightarrow> outcome" where
  "add_multiple_test_steps json_loads TestStepRequest_init ctx issue_id project_id steps =
     check_write_access
       (\<lambda>ctx. add_multiple_test_steps_fn json_loads TestStepRequest_init ctx issue_id project_id
                 steps) ctx"

subsection \<open>Test doubles\<close>

text \<open>
  Two doubles for the constructor of \<^verbatim>\<open>TestStepRequest\<close>. The class (models/zephyr.py)
  is not among the sources, so every tool above takes the constructor as a parameter and
  the general results hold for every constructor; the doubles serve concrete runs. Both
  take a string for \<^verbatim>\<open>step\<close> and a string or \<^verbatim>\<open>None\<close> for \<^verbatim>\<open>data\<close> and \<^verbatim>\<open>result\<close>, and
  raise a validation error on any other argument. The second also refuses an empty step.
\<close>

definition optional_string :: "json \<Rightarrow> string option option" where
  "optional_string v = (case v of JNull \<Rightarrow> Some None | JStr s \<Rightarrow> Some (Some s) | _ \<Rightarrow> None)"

definition TestStepRequest :: "json \<Rightarrow> json \<Rightarrow> json \<Rightarrow> exn + step_request" where
  "TestStepRequest s d r =
     (case (s, optional_string d, optional_string r) of
        (JStr step_text, Some data_text, Some result_text) \<Rightarrow>
          Inr (StepRequest step_text data_text result_text)
      | _ \<Rightarrow> Inl (Exn ValidationError ''validation error for TestStepRequest''))"


text \<open>A client double whose every method raises; a concrete run overrides the method
  it exercises.\<close>

definition connection_refused :: exn where
  "connection_refused = Exn OtherException ''Connection refused''"

definition failing_client :: zephyr_client where
  "failing_client =
     \<lparr>zephyr_get_testcase = (\<lambda>_ _. Inl connection_refused),
      zephyr_create_testcase = (\<lambda>_. Inl connection_refused),
      zephyr_update_testcase = (\<lambda>_ _. Inl connection_refused),
      zephyr_delete_testcase = (\<lambda>_. Inl connection_refused),
      zephyr_search_testcases = (\<lambda>_ _ _ _. Inl connection_refused),
      zephyr_get_testplan = (\<lambda>_ _. Inl connection_refused),
      zephyr_create_testplan = (\<lambda>_. Inl connection_refused),
      zephyr_search_testplans = (\<lambda>_ _ _ _. Inl connection_refused),
      zephyr_get_testrun = (\<lambda>_ _. Inl connection_refused),
      zephyr_create_testrun = (\<lambda>_. Inl connection_refused),
      zephyr_search_testruns = (\<lambda>_ _ _ _. Inl connection_refused),
      zephyr_create_testresult = (\<lambda>_. Inl connection_refused),
      zephyr_get_testcase_latest_result = (\<lambda>_. Inl connection_refused),
      zephyr_get_testrun_results = (\<lambda>_. Inl connection_refused),
      zephyr_get_test_steps = (\<lambda>_ _. Inl connection_refused),
      zephyr_add_test_step = (\<lambda>_ _ _. Inl connection_refused),
      zephyr_add_multiple_test_steps = (\<lambda>_ _ _. Inl connection_refused)\<rparr>"

text \<open>A context whose fetcher returns the given client.\<close>

definition context_with :: "bool \<Rightarrow> zephyr_client \<Rightarrow> tool_context" where
  "context_with flag client = \<lparr>write_access = flag, zephyr_fetcher = Inr client\<rparr>"

text \<open>The created step as the client's model object shows it.\<close>

definition created_step :: "step_request \<Rightarrow> entity" where
  "created_step r = Entity (JObj [(''step'', JStr (req_step r))])"

subsection \<open>Concrete configuration stores\<close>

text \<open>A store with a server-shaped base URL for both services, the five OAuth
  client-credential variables, and basic and personal-token credentials as well.\<close>

definition env_oauth_server :: environ where
  "env_oauth_server =
     map_of [(''JIRA_URL'', ''https://jira.example.com''),
             (''CONFLUENCE_URL'', ''https://wiki.example.com''),
             (''ATLASSIAN_OAUTH_CLIENT_ID'', ''client-id''),
             (''ATLASSIAN_OAUTH_CLIENT_SECRET'', ''client-secret''),
             (''ATLASSIAN_OAUTH_REDIRECT_URI'', ''http://localhost:8080/callback''),
             (''ATLASSIAN_OAUTH_SCOPE'', ''read:jira-work''),
             (''ATLASSIAN_OAUTH_CLOUD_ID'', ''cloud-1''),
             (''JIRA_USERNAME'', ''user''),
             (''JIRA_API_TOKEN'', ''token''),
             (''JIRA_PERSONAL_TOKEN'', ''pat''),
             (''CONFLUENCE_USERNAME'', ''user''),
             (''CONFLUENCE_API_TOKEN'', ''token''),
             (''CONFLUENCE_PERSONAL_TOKEN'', ''pat'')]"

text \<open>A store that sets \<^verbatim>\<open>ATLASSIAN_OAUTH_ENABLE\<close> and nothing else.\<close>

definition env_oauth_enable :: "string \<Rightarrow> environ" where
  "env_oauth_enable v = map_of [(''ATLASSIAN_OAUTH_ENABLE'', v)]"

text \<open>A store that sets at most the two Zephyr variables.\<close>

definition env_zephyr :: "string option \<Rightarrow> string option \<Rightarrow> environ" where
  "env_zephyr token url = (\<lambda>k. if k = ''ZEPHYR_API_TOKEN'' then token
                                else if k = ''ZEPHYR_BASE_URL'' then url else None)"

subsection \<open>Concrete clients, faults and inputs\<close>

text \<open>A decoder double for \<^verbatim>\<open>json.loads\<close>: the text decodes to the given value.\<close>

definition parsed_as :: "json \<Rightarrow> string \<Rightarrow> exn + json" where
  "parsed_as v text = Inr v"

text \<open>The gate denied the call: the envelope says so and the client was not called.\<close>

definition denied_read_only :: "outcome \<Rightarrow> bool" where
  "denied_read_only out =
     (envelope_get (response out) ''success'' = Some (JBool False) \<and>
      error_string (response out) = read_only_error \<and>
      backend_calls out = [])"

text \<open>A client with no latest result for any test case.\<close>

definition no_result_client :: zephyr_client where
  "no_result_client = failing_client\<lparr>zephyr_get_testcase_latest_result := (\<lambda>_. Inr None)\<rparr>"

text \<open>A client that creates the first two steps of a batch and no more.\<close>

definition two_of_three_client :: zephyr_client where
  "two_of_three_client =
     failing_client\<lparr>zephyr_add_multiple_test_steps :=
       (\<lambda>_ _ step_requests. Inr (map created_step (take 2 step_requests)))\<rparr>"

text \<open>Three well-formed steps.\<close>

definition three_steps :: json where
  "three_steps =
     JArr [JObj [(''step'', JStr ''Open the login page'')],
           JObj [(''step'', JStr ''Enter the credentials''), (''data'', JStr ''user/secret'')],
           JObj [(''step'', JStr ''Submit''), (''result'', JStr ''The dashboard is shown'')]]"

text \<open>Two clients whose \<^verbatim>\<open>get_testcase\<close> raises the not-found fault: the message of the
  first does not mention the key, the message of the second does.\<close>

definition not_found_client :: zephyr_client where
  "not_found_client =
     failing_client\<lparr>zephyr_get_testcase :=
       (\<lambda>_ _. Inl (Exn MCPAtlassianNotFoundError ''404 Client Error: Not Found''))\<rparr>"

definition key_echo_client :: zephyr_client where
  "key_echo_client =
     failing_client\<lparr>zephyr_get_testcase :=
       (\<lambda>test_case_key _.
          Inl (Exn MCPAtlassianNotFoundError (''Test case '' @ test_case_key @ '' does not exist'')))\<rparr>"

text \<open>A fault of no class the tools know, with a message full of internal detail, and
  a client whose \<^verbatim>\<open>get_test_steps\<close> raises it.\<close>

definition internal_fault :: exn where
  "internal_fault =
     Exn OtherException
       ''HTTPSConnectionPool(host=zephyr.corp.internal, port=8443): Max retries exceeded with url: /rest/zapi/latest/teststep/12345?apiToken=s3cr3t''"

definition unexpected_fault_client :: zephyr_client where
  "unexpected_fault_client = failing_client\<lparr>zephyr_get_test_steps := (\<lambda>_ _. Inl internal_fault)\<rparr>"

text \<open>The authentication fault, and a client whose test step methods raise it.\<close>

definition permission_denied :: exn where
  "permission_denied = Exn MCPAtlassianAuthenticationError ''403 Forbidden''"

definition auth_fault_client :: zephyr_client where
  "auth_fault_client =
     failing_client\<lparr>zephyr_get_test_steps := (\<lambda>_ _. Inl permission_denied),
                    zephyr_add_test_step := (\<lambda>_ _ _. Inl permission_denied),
                    zephyr_add_multiple_test_steps := (\<lambda>_ _ _. Inl permission_denied)\<rparr>"





section \<open>Properties of the credential resolver\<close>

subsection \<open>The availability map reads the three blocks\<close>

lemma services_jira: "svc_jira (fst (get_available_services f env)) = fst (jira_block f env)"
  by (simp add: get_available_services_def Let_def split: prod.splits)

lemma services_confluence:
  "svc_confluence (fst (get_available_services f env)) = fst (confluence_block f env)"
  by (simp add: get_available_services_def Let_def split: prod.splits)

lemma services_zephyr: "svc_zephyr (fst (get_available_services f env)) = fst (zephyr_block env)"
  by (simp add: get_available_services_def Let_def split: prod.splits)

lemma logged_jira: "set (snd (jira_block f env)) \<subseteq> set (snd (get_available_services f env))"
  by (auto simp add: get_available_services_def Let_def split: prod.splits)

lemma logged_confluence:
  "set (snd (confluence_block f env)) \<subseteq> set (snd (get_available_services f env))"
  by (auto simp add: get_available_services_def Let_def split: prod.splits)

lemma logged_zephyr: "set (snd (zephyr_block env)) \<subseteq> set (snd (get_available_services f env))"
  by (auto simp add: get_available_services_def Let_def split: prod.splits)

lemma truthy_simps: "truthy None = False" "truthy (Some s) = (s \<noteq> [])"
  by (simp_all add: truthy_def)

lemma not_truthy_value: "\<not> truthy v \<Longrightarrow> truthy_value v = None"
  by (cases v) (simp_all add: truthy_def truthy_value_def)

subsection \<open>OAuth client credentials come first\<close>

lemma jira_block_oauth:
  assumes "truthy (getenv env ''JIRA_URL'')" and "oauth_client_credentials_present env"
  shows "jira_block is_cloud env =
           (True, [logger_info ''Using Jira OAuth 2.0 (3LO) authentication (Cloud-only features)''])"
proof -
  from assms(1) obtain url where "truthy_value (getenv env ''JIRA_URL'') = Some url"
    by (auto simp: truthy_def truthy_value_def split: option.splits)
  with assms(2) show ?thesis
    by (simp add: jira_block_def oauth_client_credentials_present_def)
qed

lemma confluence_block_oauth:
  assumes "truthy (getenv env ''CONFLUENCE_URL'')" and "oauth_client_credentials_present env"
  shows "confluence_block is_cloud env =
           (True, [logger_info ''Using Confluence OAuth 2.0 (3LO) authentication (Cloud-only features)''])"
proof -
  from assms(1) obtain url where "truthy_value (getenv env ''CONFLUENCE_URL'') = Some url"
    by (auto simp: truthy_def truthy_value_def split: option.splits)
  with assms(2) show ?thesis
    by (simp add: confluence_block_def oauth_client_credentials_present_def)
qed

text \<open>
  C2: in every configuration store where the five OAuth client-credential variables are
  set, a service (Jira, Confluence) whose base URL is set is available, and its block
  takes the OAuth 2.0 (3LO) client-credentials branch and logs that mode alone. The
  classifier of the URL is arbitrary, so the URL may be cloud-shaped or server-shaped,
  and nothing is assumed about the username, API token and personal token variables.
\<close>

theorem oauth_client_credentials_precedence:
  assumes "oauth_client_credentials_present env"
  shows "(truthy (getenv env ''JIRA_URL'') \<longrightarrow>
            svc_jira (fst (get_available_services is_cloud env)) \<and>
            jira_block is_cloud env =
              (True, [logger_info ''Using Jira OAuth 2.0 (3LO) authentication (Cloud-only features)'']) \<and>
            logger_info ''Using Jira OAuth 2.0 (3LO) authentication (Cloud-only features)''
              \<in> set (snd (get_available_services is_cloud env))) \<and>
         (truthy (getenv env ''CONFLUENCE_URL'') \<longrightarrow>
            svc_confluence (fst (get_available_services is_cloud env)) \<and>
            confluence_block is_cloud env =
              (True, [logger_info ''Using Confluence OAuth 2.0 (3LO) authentication (Cloud-only features)'']) \<and>
            logger_info ''Using Confluence OAuth 2.0 (3LO) authentication (Cloud-only features)''
              \<in> set (snd (get_available_services is_cloud env)))"
proof (intro conjI impI)
  assume u: "truthy (getenv env ''JIRA_URL'')"
  note b = jira_block_oauth [OF u assms, of is_cloud]
  show "svc_jira (fst (get_available_services is_cloud env))"
    by (simp add: services_jira b)
  show "jira_block is_cloud env =
          (True, [logger_info ''Using Jira OAuth 2.0 (3LO) authentication (Cloud-only features)''])"
    by (rule b)
  show "logger_info ''Using Jira OAuth 2.0 (3LO) authentication (Cloud-only features)''
          \<in> set (snd (get_available_services is_cloud env))"
    using logged_jira [of is_cloud env] by (simp add: b)
next
  assume u: "truthy (getenv env ''CONFLUENCE_URL'')"
  note b = confluence_block_oauth [OF u assms, of is_cloud]
  show "svc_confluence (fst (get_available_services is_cloud env))"
    by (simp add: services_confluence b)
  show "confluence_block is_cloud env =
          (True, [logger_info ''Using Confluence OAuth 2.0 (3LO) authentication (Cloud-only features)''])"
    by (rule b)
  show "logger_info ''Using Confluence OAuth 2.0 (3LO) authentication (Cloud-only features)''
          \<in> set (snd (get_available_services is_cloud env))"
    using logged_confluence [of is_cloud env] by (simp add: b)
qed

lemma env_oauth_server_facts:
  "oauth_client_credentials_present env_oauth_server"
  "truthy (getenv env_oauth_server ''JIRA_URL'')"
  "truthy (getenv env_oauth_server ''CONFLUENCE_URL'')"
  "truthy (getenv env_oauth_server ''JIRA_USERNAME'')"
  "truthy (getenv env_oauth_server ''JIRA_API_TOKEN'')"
  "truthy (getenv env_oauth_server ''JIRA_PERSONAL_TOKEN'')"
  by (simp_all add: oauth_client_credentials_present_def env_oauth_server_def truthy_def getenv_def)

theorem oauth_client_credentials_precedence_witness:
  "oauth_client_credentials_present env_oauth_server \<and>
   truthy (getenv env_oauth_server ''JIRA_URL'') \<and>
   truthy (getenv env_oauth_server ''CONFLUENCE_URL'') \<and>
   truthy (getenv env_oauth_server ''JIRA_PERSONAL_TOKEN'') \<and>
   svc_jira (fst (get_available_services (\<lambda>url. False) env_oauth_server)) \<and>
   svc_confluence (fst (get_available_services (\<lambda>url. False) env_oauth_server)) \<and>
   svc_jira (fst (get_available_services (\<lambda>url. True) env_oauth_server)) \<and>
   logger_info ''Using Jira OAuth 2.0 (3LO) authentication (Cloud-only features)''
     \<in> set (snd (get_available_services (\<lambda>url. False) env_oauth_server))"
  using oauth_client_credentials_precedence [OF env_oauth_server_facts(1), of "\<lambda>url. False"]
    oauth_client_credentials_precedence [OF env_oauth_server_facts(1), of "\<lambda>url. True"]
    env_oauth_server_facts
  by simp

subsection \<open>No base URL: the OAuth-enable flag decides\<close>

lemma jira_block_no_url:
  assumes "\<not> truthy (getenv env ''JIRA_URL'')"
  shows "jira_block is_cloud env =
           (if oauth_enabled env
            then (True, [logger_info
                   ''Using Jira minimal OAuth configuration - expecting user-provided tokens via headers''])
            else (False, []))"
  unfolding jira_block_def oauth_enabled_def not_truthy_value [OF assms] by simp

lemma confluence_block_no_url:
  assumes "\<not> truthy (getenv env ''CONFLUENCE_URL'')"
  shows "confluence_block is_cloud env =
           (if oauth_enabled env
            then (True, [logger_info
                   ''Using Confluence minimal OAuth configuration - expecting user-provided tokens via headers''])
            else (False, []))"
  unfolding confluence_block_def oauth_enabled_def not_truthy_value [OF assms] by simp

text \<open>
  C3, amended to the two services the flag applies to: for Jira and for Confluence, in
  every configuration store where the service's base URL is unset or empty, the service
  is available exactly when the lowered value of \<^verbatim>\<open>ATLASSIAN_OAUTH_ENABLE\<close> is one of
  \<^verbatim>\<open>true\<close>, \<^verbatim>\<open>1\<close>, \<^verbatim>\<open>yes\<close>; the block then logs the minimal-OAuth mode, and logs
  nothing otherwise.
\<close>

theorem oauth_enable_without_base_url:
  "(\<not> truthy (getenv env ''JIRA_URL'') \<longrightarrow>
      svc_jira (fst (get_available_services is_cloud env)) = oauth_enabled env \<and>
      jira_block is_cloud env =
        (if oauth_enabled env
         then (True, [logger_info
                ''Using Jira minimal OAuth configuration - expecting user-provided tokens via headers''])
         else (False, []))) \<and>
   (\<not> truthy (getenv env ''CONFLUENCE_URL'') \<longrightarrow>
      svc_confluence (fst (get_available_services is_cloud env)) = oauth_enabled env \<and>
      confluence_block is_cloud env =
        (if oauth_enabled env
         then (True, [logger_info
                ''Using Confluence minimal OAuth configuration - expecting user-provided tokens via headers''])
         else (False, [])))"
proof (intro conjI impI)
  assume n: "\<not> truthy (getenv env ''JIRA_URL'')"
  show "svc_jira (fst (get_available_services is_cloud env)) = oauth_enabled env"
    by (simp add: services_jira jira_block_no_url [OF n])
  show "jira_block is_cloud env =
        (if oauth_enabled env
         then (True, [logger_info
                ''Using Jira minimal OAuth configuration - expecting user-provided tokens via headers''])
         else (False, []))"
    by (rule jira_block_no_url [OF n])
next
  assume n: "\<not> truthy (getenv env ''CONFLUENCE_URL'')"
  show "svc_confluence (fst (get_available_services is_cloud env)) = oauth_enabled env"
    by (simp add: services_confluence confluence_block_no_url [OF n])
  show "confluence_block is_cloud env =
        (if oauth_enabled env
         then (True, [logger_info
                ''Using Confluence minimal OAuth configuration - expecting user-provided tokens via headers''])
         else (False, []))"
    by (rule confluence_block_no_url [OF n])
qed

lemma oauth_enabled_examples:
  "oauth_enabled (env_oauth_enable ''true'')"
  "oauth_enabled (env_oauth_enable ''YES'')"
  "oauth_enabled (env_oauth_enable ''1'')"
  "\<not> oauth_enabled (env_oauth_enable ''on'')"
  "\<not> oauth_enabled Map.empty"
  by (simp_all add: oauth_enabled_def env_oauth_enable_def getenv_default_def lower_def
      lower_char_def)

lemma no_url_examples:
  "\<not> truthy (getenv (env_oauth_enable v) ''JIRA_URL'')"
  "\<not> truthy (getenv (env_oauth_enable v) ''CONFLUENCE_URL'')"
  "\<not> truthy (getenv (env_oauth_enable v) ''ZEPHYR_BASE_URL'')"
  "\<not> truthy (getenv Map.empty k)"
  by (simp_all add: env_oauth_enable_def getenv_def truthy_def)

theorem oauth_enable_without_base_url_witness:
  "\<not> truthy (getenv (env_oauth_enable ''YES'') ''JIRA_URL'') \<and>
   \<not> truthy (getenv (env_oauth_enable ''YES'') ''CONFLUENCE_URL'') \<and>
   svc_jira (fst (get_available_services (\<lambda>url. False) (env_oauth_enable ''YES''))) \<and>
   svc_confluence (fst (get_available_services (\<lambda>url. False) (env_oauth_enable ''YES''))) \<and>
   \<not> svc_jira (fst (get_available_services (\<lambda>url. False) (env_oauth_enable ''on''))) \<and>
   \<not> svc_confluence (fst (get_available_services (\<lambda>url. False) Map.empty))"
  using oauth_enable_without_base_url [of "env_oauth_enable ''YES''" "\<lambda>url. False"]
    oauth_enable_without_base_url [of "env_oauth_enable ''on''" "\<lambda>url. False"]
    oauth_enable_without_base_url [of Map.empty "\<lambda>url. False"]
    oauth_enabled_examples no_url_examples
  by simp

text \<open>C3 as stated, for every service, fails on Zephyr: with the flag set to \<^verbatim>\<open>true\<close>
  and no Zephyr base URL, Zephyr is not available.\<close>

theorem oauth_enable_zephyr_counterexample:
  "\<not> (\<not> truthy (getenv (env_oauth_enable ''true'') ''ZEPHYR_BASE_URL'') \<and>
       oauth_enabled (env_oauth_enable ''true'') \<longrightarrow>
       svc_zephyr (fst (get_available_services (\<lambda>url. False) (env_oauth_enable ''true''))))"
proof -
  have "fst (zephyr_block (env_oauth_enable ''true'')) = False"
    by (simp add: zephyr_block_def env_oauth_enable_def getenv_def truthy_def)
  then show ?thesis
    using oauth_enabled_examples(1) no_url_examples(3) [of "''true''"]
    by (simp add: services_zephyr)
qed

subsection \<open>Zephyr\<close>

text \<open>
  C9: in every configuration store Zephyr is available exactly when both
  \<^verbatim>\<open>ZEPHYR_API_TOKEN\<close> and \<^verbatim>\<open>ZEPHYR_BASE_URL\<close> are set; with the token alone the block
  warns that the URL is missing, with the URL alone that the token is missing, the two
  warnings differ, and both leave Zephyr unavailable.
\<close>

theorem zephyr_availability:
  "svc_zephyr (fst (get_available_services is_cloud env)) =
     (truthy (getenv env ''ZEPHYR_API_TOKEN'') \<and> truthy (getenv env ''ZEPHYR_BASE_URL'')) \<and>
   (truthy (getenv env ''ZEPHYR_API_TOKEN'') \<and> \<not> truthy (getenv env ''ZEPHYR_BASE_URL'') \<longrightarrow>
      zephyr_block env =
        (False, [logger_warning
          ''Zephyr API token found but ZEPHYR_BASE_URL is missing - Zephyr service will not be available''])) \<and>
   (truthy (getenv env ''ZEPHYR_BASE_URL'') \<and> \<not> truthy (getenv env ''ZEPHYR_API_TOKEN'') \<longrightarrow>
      zephyr_block env =
        (False, [logger_warning
          ''Zephyr base URL found but ZEPHYR_API_TOKEN is missing - Zephyr service will not be available''])) \<and>
   logger_warning
     ''Zephyr API token found but ZEPHYR_BASE_URL is missing - Zephyr service will not be available'' \<noteq>
   logger_warning
     ''Zephyr base URL found but ZEPHYR_API_TOKEN is missing - Zephyr service will not be available''"
proof (intro conjI impI)
  show "svc_zephyr (fst (get_available_services is_cloud env)) =
     (truthy (getenv env ''ZEPHYR_API_TOKEN'') \<and> truthy (getenv env ''ZEPHYR_BASE_URL''))"
    unfolding services_zephyr by (simp add: zephyr_block_def)
next
  assume "truthy (getenv env ''ZEPHYR_API_TOKEN'') \<and> \<not> truthy (getenv env ''ZEPHYR_BASE_URL'')"
  then show "zephyr_block env =
        (False, [logger_warning
          ''Zephyr API token found but ZEPHYR_BASE_URL is missing - Zephyr service will not be available''])"
    by (simp add: zephyr_block_def)
next
  assume "truthy (getenv env ''ZEPHYR_BASE_URL'') \<and> \<not> truthy (getenv env ''ZEPHYR_API_TOKEN'')"
  then show "zephyr_block env =
        (False, [logger_warning
          ''Zephyr base URL found but ZEPHYR_API_TOKEN is missing - Zephyr service will not be available''])"
    by (simp add: zephyr_block_def)
next
  show "logger_warning
     ''Zephyr API token found but ZEPHYR_BASE_URL is missing - Zephyr service will not be available'' \<noteq>
   logger_warning
     ''Zephyr base URL found but ZEPHYR_API_TOKEN is missing - Zephyr service will not be available''"
    by (simp add: logger_warning_def)
qed

lemma env_zephyr_truthy:
  "truthy (getenv (env_zephyr token url) ''ZEPHYR_API_TOKEN'') = truthy token"
  "truthy (getenv (env_zephyr token url) ''ZEPHYR_BASE_URL'') = truthy url"
  by (simp_all add: env_zephyr_def getenv_def)

theorem zephyr_availability_witness:
  "svc_zephyr (fst (get_available_services (\<lambda>url. False)
      (env_zephyr (Some ''tok'') (Some ''https://zephyr.example.com'')))) \<and>
   zephyr_block (env_zephyr (Some ''tok'') None) =
     (False, [logger_warning
       ''Zephyr API token found but ZEPHYR_BASE_URL is missing - Zephyr service will not be available'']) \<and>
   zephyr_block (env_zephyr None (Some ''https://zephyr.example.com'')) =
     (False, [logger_warning
       ''Zephyr base URL found but ZEPHYR_API_TOKEN is missing - Zephyr service will not be available'']) \<and>
   \<not> svc_zephyr (fst (get_available_services (\<lambda>url. False) (env_zephyr (Some ''tok'') (Some ''''))))"
  using zephyr_availability [of "\<lambda>url. False" "env_zephyr (Some ''tok'') (Some ''https://zephyr.example.com'')"]
    zephyr_availability [of "\<lambda>url. False" "env_zephyr (Some ''tok'') None"]
    zephyr_availability [of "\<lambda>url. False" "env_zephyr None (Some ''https://zephyr.example.com'')"]
    zephyr_availability [of "\<lambda>url. False" "env_zephyr (Some ''tok'') (Some '''')"]
  by (simp add: env_zephyr_truthy truthy_simps)

section \<open>Properties of the tools\<close>

subsection \<open>Contexts and envelopes\<close>

lemma context_with_fetcher: "get_zephyr_fetcher (context_with flag client) = Inr client"
  by (simp add: get_zephyr_fetcher_def context_with_def)

lemma context_with_write_access: "write_access (context_with flag client) = flag"
  by (simp add: context_with_def)

lemma check_write_access_granted:
  "write_access ctx \<Longrightarrow> check_write_access func ctx = func ctx"
  by (simp add: check_write_access_def)

lemma error_string_envelope:
  "error_string (JObj ((''success'', b) # (''error'', JStr m) # rest)) = m"
  by (simp add: error_string_def envelope_get_def)

subsection \<open>The write-access gate\<close>

lemma check_write_access_denied:
  "\<not> write_access ctx \<Longrightarrow> denied_read_only (check_write_access func ctx)"
  by (simp add: check_write_access_def denied_read_only_def envelope_get_def error_string_def)

text \<open>
  C1: while the Write-Access Flag is false, each of the eight mutating tools returns an
  envelope with \<^verbatim>\<open>success = false\<close> and the read-only error, and makes no call on the
  client, whatever its arguments, the decoder and the client are.
\<close>

theorem read_only_mode_blocks_mutating_tools:
  assumes "\<not> write_access ctx"
  shows "denied_read_only (create_testcase json_loads ctx testcase_data) \<and>
         denied_read_only (update_testcase json_loads ctx test_case_key testcase_data) \<and>
         denied_read_only (delete_testcase ctx test_case_key) \<and>
         denied_read_only (create_testplan json_loads ctx testplan_data) \<and>
         denied_read_only (create_testrun json_loads ctx testrun_data) \<and>
         denied_read_only (create_testresult json_loads ctx testresult_data) \<and>
         denied_read_only
           (add_test_step init ctx issue_id project_id step_arg data_arg result_arg) \<and>
         denied_read_only (add_multiple_test_steps json_loads init ctx issue_id project_id steps)"
  unfolding create_testcase_def update_testcase_def delete_testcase_def create_testplan_def
    create_testrun_def create_testresult_def add_test_step_def add_multiple_test_steps_def
  by (intro conjI check_write_access_denied [OF assms])

theorem read_only_mode_blocks_mutating_tools_witness:
  "\<not> write_access (context_with False two_of_three_client) \<and>
   backend_calls (add_multiple_test_steps (parsed_as three_steps) TestStepRequest
     (context_with False two_of_three_client) ''12345'' ''10000'' ''[...]'') = [] \<and>
   error_string (response (create_testcase (parsed_as (JObj []))
     (context_with False two_of_three_client) ''{}'')) = read_only_error \<and>
   backend_calls (delete_testcase (context_with False two_of_three_client) ''JQA-T1'') = []"
  using read_only_mode_blocks_mutating_tools [of "context_with False two_of_three_client"]
  by (simp add: denied_read_only_def context_with_def)

subsection \<open>No latest result\<close>

text \<open>
  C10: when the client returns \<^verbatim>\<open>None\<close> for the latest result of a test case,
  \<^verbatim>\<open>get_testcase_latest_result\<close> answers \<^verbatim>\<open>success = true\<close> with \<^verbatim>\<open>test_result\<close> null and
  the message \<^verbatim>\<open>No results found\<close>, and logs nothing.
\<close>

theorem latest_result_absent_is_success:
  assumes "get_zephyr_fetcher ctx = Inr zephyr"
    and "zephyr_get_testcase_latest_result zephyr test_case_key = Inr None"
  shows "response (get_testcase_latest_result ctx test_case_key) =
           JObj [(''success'', JBool True),
                 (''test_result'', JNull),
                 (''message'', JStr ''No results found'')] \<and>
         logged (get_testcase_latest_result ctx test_case_key) = []"
  using assms by (simp add: get_testcase_latest_result_def)

theorem latest_result_absent_is_success_witness:
  "get_zephyr_fetcher (context_with False no_result_client) = Inr no_result_client \<and>
   zephyr_get_testcase_latest_result no_result_client ''JQA-T1'' = Inr None \<and>
   response (get_testcase_latest_result (context_with False no_result_client) ''JQA-T1'') =
     JObj [(''success'', JBool True),
           (''test_result'', JNull),
           (''message'', JStr ''No results found'')]"
proof -
  have f: "get_zephyr_fetcher (context_with False no_result_client) = Inr no_result_client"
    by (rule context_with_fetcher)
  have n: "zephyr_get_testcase_latest_result no_result_client ''JQA-T1'' = Inr None"
    by (simp add: no_result_client_def)
  from latest_result_absent_is_success [OF f n] f n show ?thesis by simp
qed

subsection \<open>A batch the client creates in part\<close>

lemma step_requests_loop_length:
  "step_requests_loop init i acc elements = Inr step_requests \<Longrightarrow>
   length step_requests = length acc + length elements"
proof (induction elements arbitrary: i acc)
  case Nil
  then show ?case by simp
next
  case (Cons step_data rest)
  then show ?case by (auto split: sum.splits)
qed

text \<open>
  C5: when the flag allows writing, the text decodes to a list, every element yields a
  request and the client returns the steps it created, \<^verbatim>\<open>add_multiple_test_steps\<close>
  answers \<^verbatim>\<open>success = true\<close> with \<^verbatim>\<open>total_requested\<close> the number of requests, which is the
  number of elements, and \<^verbatim>\<open>total_created\<close> the number of steps the client returned,
  however few; the one call on the client carries every request, and nothing is logged.
\<close>

theorem add_multiple_test_steps_partial_success:
  assumes "write_access ctx"
    and "get_zephyr_fetcher ctx = Inr zephyr"
    and "json_loads steps = Inr (JArr elements)"
    and "step_requests_loop init 0 [] elements = Inr step_requests"
    and "zephyr_add_multiple_test_steps zephyr issue_id project_id step_requests =
           Inr created_steps"
  shows "response (add_multiple_test_steps json_loads init ctx issue_id project_id steps) =
           JObj [(''success'', JBool True),
                 (''test_steps'', JArr (map to_simplified_dict created_steps)),
                 (''total_requested'', JInt (int (length elements))),
                 (''total_created'', JInt (int (length created_steps))),
                 (''issue_id'', JStr issue_id),
                 (''project_id'', JStr project_id)] \<and>
         length step_requests = length elements \<and>
         backend_calls (add_multiple_test_steps json_loads init ctx issue_id project_id steps) =
           [Add_multiple_test_steps issue_id project_id step_requests] \<and>
         logged (add_multiple_test_steps json_loads init ctx issue_id project_id steps) = []"
proof -
  have len: "length step_requests = length elements"
    using step_requests_loop_length [OF assms(4)] by simp
  have run: "add_multiple_test_steps json_loads init ctx issue_id project_id steps =
          add_multiple_test_steps_fn json_loads init ctx issue_id project_id steps"
    unfolding add_multiple_test_steps_def by (rule check_write_access_granted [OF assms(1)])
  show ?thesis
    unfolding run using assms(2,3,4,5) len
    by (simp add: add_multiple_test_steps_fn_def)
qed

lemma three_steps_requests:
  "step_requests_loop TestStepRequest 0 []
     [JObj [(''step'', JStr ''Open the login page'')],
      JObj [(''step'', JStr ''Enter the credentials''), (''data'', JStr ''user/secret'')],
      JObj [(''step'', JStr ''Submit''), (''result'', JStr ''The dashboard is shown'')]] =
   Inr [StepRequest ''Open the login page'' None None,
        StepRequest ''Enter the credentials'' (Some ''user/secret'') None,
        StepRequest ''Submit'' None (Some ''The dashboard is shown'')]"
  by (simp add: make_step_request_def py_get_def TestStepRequest_def optional_string_def)

theorem add_multiple_test_steps_partial_success_witness:
  "write_access (context_with True two_of_three_client) \<and>
   response (add_multiple_test_steps (parsed_as three_steps) TestStepRequest
      (context_with True two_of_three_client) ''12345'' ''10000'' ''[...]'') =
     JObj [(''success'', JBool True),
           (''test_steps'', JArr [JObj [(''step'', JStr ''Open the login page'')],
                                  JObj [(''step'', JStr ''Enter the credentials'')]]),
           (''total_requested'', JInt 3),
           (''total_created'', JInt 2),
           (''issue_id'', JStr ''12345''),
           (''project_id'', JStr ''10000'')]"
proof -
  have w: "write_access (context_with True two_of_three_client)"
    by (simp add: context_with_write_access)
  have f: "get_zephyr_fetcher (context_with True two_of_three_client) = Inr two_of_three_client"
    by (rule context_with_fetcher)
  have l: "parsed_as three_steps ''[...]'' =
      (Inr (JArr [JObj [(''step'', JStr ''Open the login page'')],
      JObj [(''step'', JStr ''Enter the credentials''), (''data'', JStr ''user/secret'')],
      JObj [(''step'', JStr ''Submit''), (''result'', JStr ''The dashboard is shown'')]]) :: exn + json)"
    by (simp add: parsed_as_def three_steps_def)
  have b: "zephyr_add_multiple_test_steps two_of_three_client ''12345'' ''10000''
      [StepRequest ''Open the login page'' None None,
        StepRequest ''Enter the credentials'' (Some ''user/secret'') None,
        StepRequest ''Submit'' None (Some ''The dashboard is shown'')] =
     Inr [created_step (StepRequest ''Open the login page'' None None),
          created_step (StepRequest ''Enter the credentials'' (Some ''user/secret'') None)]"
    by (simp add: two_of_three_client_def)
  from add_multiple_test_steps_partial_success
      [where json_loads = "parsed_as three_steps" and steps = "''[...]''",
        OF w f l three_steps_requests b] w
  show ?thesis by (simp add: created_step_def)
qed

subsection \<open>Not found\<close>

lemma sublist_after_prefix: "sublist k m \<Longrightarrow> sublist k (p @ m)"
  by (metis sublist_append)

text \<open>
  C6, amended: when the client raises the not-found fault, each of the four get tools
  answers \<^verbatim>\<open>success = false\<close> with an error that says not found and then gives the
  fault's own message; the tool adds no key of its own, so the error contains the key of
  the request whenever the fault's message does.
\<close>

theorem get_tools_not_found:
  assumes "get_zephyr_fetcher ctx = Inr zephyr"
    and "cls e = MCPAtlassianNotFoundError"
  shows "(zephyr_get_testcase zephyr k fields_arg = Inl e \<longrightarrow>
            response (get_testcase ctx k fields_arg) =
              JObj [(''success'', JBool False),
                    (''error'', JStr (''Test case not found: '' @ str e))] \<and>
            (sublist k (str e) \<longrightarrow>
               sublist k (error_string (response (get_testcase ctx k fields_arg))))) \<and>
         (zephyr_get_testplan zephyr k fields_arg = Inl e \<longrightarrow>
            response (get_testplan ctx k fields_arg) =
              JObj [(''success'', JBool False),
                    (''error'', JStr (''Test plan not found: '' @ str e))] \<and>
            (sublist k (str e) \<longrightarrow>
               sublist k (error_string (response (get_testplan ctx k fields_arg))))) \<and>
         (zephyr_get_testrun zephyr k fields_arg = Inl e \<longrightarrow>
            response (get_testrun ctx k fields_arg) =
              JObj [(''success'', JBool False),
                    (''error'', JStr (''Test run not found: '' @ str e))] \<and>
            (sublist k (str e) \<longrightarrow>
               sublist k (error_string (response (get_testrun ctx k fields_arg))))) \<and>
         (zephyr_get_testrun_results zephyr k = Inl e \<longrightarrow>
            response (get_testrun_results ctx k) =
              JObj [(''success'', JBool False),
                    (''error'', JStr (''Test run not found: '' @ str e))] \<and>
            (sublist k (str e) \<longrightarrow>
               sublist k (error_string (response (get_testrun_results ctx k)))))"
proof (intro conjI impI)
  assume r: "zephyr_get_testcase zephyr k fields_arg = Inl e"
  show c: "response (get_testcase ctx k fields_arg) =
      JObj [(''success'', JBool False), (''error'', JStr (''Test case not found: '' @ str e))]"
    using assms r by (simp add: get_testcase_def get_testcase_except_def)
  assume "sublist k (str e)"
  then show "sublist k (error_string (response (get_testcase ctx k fields_arg)))"
    unfolding c error_string_envelope by (rule sublist_after_prefix)
next
  assume r: "zephyr_get_testplan zephyr k fields_arg = Inl e"
  show c: "response (get_testplan ctx k fields_arg) =
      JObj [(''success'', JBool False), (''error'', JStr (''Test plan not found: '' @ str e))]"
    using assms r by (simp add: get_testplan_def get_testplan_except_def)
  assume "sublist k (str e)"
  then show "sublist k (error_string (response (get_testplan ctx k fields_arg)))"
    unfolding c error_string_envelope by (rule sublist_after_prefix)
next
  assume r: "zephyr_get_testrun zephyr k fields_arg = Inl e"
  show c: "response (get_testrun ctx k fields_arg) =
      JObj [(''success'', JBool False), (''error'', JStr (''Test run not found: '' @ str e))]"
    using assms r by (simp add: get_testrun_def get_testrun_except_def)
  assume "sublist k (str e)"
  then show "sublist k (error_string (response (get_testrun ctx k fields_arg)))"
    unfolding c error_string_envelope by (rule sublist_after_prefix)
next
  assume r: "zephyr_get_testrun_results zephyr k = Inl e"
  show c: "response (get_testrun_results ctx k) =
      JObj [(''success'', JBool False), (''error'', JStr (''Test run not found: '' @ str e))]"
    using assms r by (simp add: get_testrun_results_def get_testrun_results_except_def)
  assume "sublist k (str e)"
  then show "sublist k (error_string (response (get_testrun_results ctx k)))"
    unfolding c error_string_envelope by (rule sublist_after_prefix)
qed

theorem get_tools_not_found_witness:
  "get_zephyr_fetcher (context_with False key_echo_client) = Inr key_echo_client \<and>
   cls (Exn MCPAtlassianNotFoundError ''Test case JQA-T1 does not exist'') =
     MCPAtlassianNotFoundError \<and>
   sublist ''JQA-T1'' (str (Exn MCPAtlassianNotFoundError ''Test case JQA-T1 does not exist'')) \<and>
   response (get_testcase (context_with False key_echo_client) ''JQA-T1'' None) =
     JObj [(''success'', JBool False),
           (''error'', JStr ''Test case not found: Test case JQA-T1 does not exist'')] \<and>
   sublist ''JQA-T1''
     (error_string (response (get_testcase (context_with False key_echo_client) ''JQA-T1'' None)))"
proof -
  let ?e = "Exn MCPAtlassianNotFoundError ''Test case JQA-T1 does not exist''"
  have f: "get_zephyr_fetcher (context_with False key_echo_client) = Inr key_echo_client"
    by (rule context_with_fetcher)
  have c: "cls ?e = MCPAtlassianNotFoundError"
    by simp
  have r: "zephyr_get_testcase key_echo_client ''JQA-T1'' None = Inl ?e"
    by (simp add: key_echo_client_def)
  have s: "sublist ''JQA-T1'' (str ?e)"
    by code_simp
  have g: "response (get_testcase (context_with False key_echo_client) ''JQA-T1'' None) =
       JObj [(''success'', JBool False),
             (''error'', JStr (''Test case not found: '' @ str ?e))] \<and>
     sublist ''JQA-T1''
       (error_string (response (get_testcase (context_with False key_echo_client) ''JQA-T1'' None)))"
    using get_tools_not_found [OF f c, of "''JQA-T1''" None] r s by blast
  have a: "''Test case not found: '' @ str ?e =
      ''Test case not found: Test case JQA-T1 does not exist''"
    by simp
  from g show ?thesis
    unfolding a using f c s by blast
qed

text \<open>C6 as stated fails for a fault whose message does not mention the key.\<close>

theorem get_testcase_not_found_key_counterexample:
  "response (get_testcase (context_with False not_found_client) ''JQA-T1'' None) =
     JObj [(''success'', JBool False),
           (''error'', JStr ''Test case not found: 404 Client Error: Not Found'')] \<and>
   \<not> sublist ''JQA-T1''
       (error_string (response (get_testcase (context_with False not_found_client) ''JQA-T1'' None)))"
proof -
  have c: "response (get_testcase (context_with False not_found_client) ''JQA-T1'' None) =
     JObj [(''success'', JBool False),
           (''error'', JStr ''Test case not found: 404 Client Error: Not Found'')]"
    by (simp add: get_testcase_def get_testcase_except_def context_with_fetcher
        not_found_client_def)
  have "\<not> sublist ''JQA-T1'' ''Test case not found: 404 Client Error: Not Found''"
    by code_simp
  then show ?thesis
    unfolding c error_string_envelope by simp
qed

subsection \<open>Unexpected faults\<close>

text \<open>What each tool does when its call on the client raises a fault that is neither the
  not-found nor the authentication one.\<close>

lemma get_testcase_unexpected_fault:
  assumes "get_zephyr_fetcher ctx = Inr zephyr"
    and "cls e \<noteq> MCPAtlassianNotFoundError"
    and "cls e \<noteq> MCPAtlassianAuthenticationError"
  shows "(zephyr_get_testcase zephyr test_case_key fields_arg = Inl e \<longrightarrow>
           response (get_testcase ctx test_case_key fields_arg) =
             JObj [(''success'', JBool False),
                  (''error'', JStr (''Failed to get test case: '' @ str e))] \<and>
           logged (get_testcase ctx test_case_key fields_arg) =
             [logger_exception (''Error getting test case '' @ test_case_key) e])"
  using assms by (simp add: get_testcase_def get_testcase_except_def)

lemma get_testplan_unexpected_fault:
  assumes "get_zephyr_fetcher ctx = Inr zephyr"
    and "cls e \<noteq> MCPAtlassianNotFoundError"
    and "cls e \<noteq> MCPAtlassianAuthenticationError"
  shows "(zephyr_get_testplan zephyr test_plan_key fields_arg = Inl e \<longrightarrow>
           response (get_testplan ctx test_plan_key fields_arg) =
             JObj [(''success'', JBool False),
                  (''error'', JStr (''Failed to get test plan: '' @ str e))] \<and>
           logged (get_testplan ctx test_plan_key fields_arg) =
             [logger_exception (''Error getting test plan '' @ test_plan_key) e])"
  using assms by (simp add: get_testplan_def get_testplan_except_def)

lemma get_testrun_unexpected_fault:
  assumes "get_zephyr_fetcher ctx = Inr zephyr"
    and "cls e \<noteq> MCPAtlassianNotFoundError"
    and "cls e \<noteq> MCPAtlassianAuthenticationError"
  shows "(zephyr_get_testrun zephyr test_run_key fields_arg = Inl e \<longrightarrow>
           response (get_testrun ctx test_run_key fields_arg) =
             JObj [(''success'', JBool False),
                  (''error'', JStr (''Failed to get test run: '' @ str e))] \<and>
           logged (get_testrun ctx test_run_key fields_arg) =
             [logger_exception (''Error getting test run '' @ test_run_key) e])"
  using assms by (simp add: get_testrun_def get_testrun_except_def)

lemma create_testcase_unexpected_fault:
  assumes "get_zephyr_fetcher ctx = Inr zephyr"
    and "cls e \<noteq> MCPAtlassianNotFoundError"
    and "cls e \<noteq> MCPAtlassianAuthenticationError"
  shows "(write_access ctx \<and>
         json_loads testcase_data = Inr payload \<and>
         zephyr_create_testcase zephyr payload = Inl e \<longrightarrow>
           response (create_testcase json_loads ctx testcase_data) =
             JObj [(''success'', JBool False),
                  (''error'', JStr (''Failed to create test case: '' @ str e))] \<and>
           logged (create_testcase json_loads ctx testcase_data) =
             [logger_exception ''Error creating test case'' e])"
  using assms by (simp add: create_testcase_def create_testcase_fn_def create_testcase_except_def check_write_access_def)

lemma create_testplan_unexpected_fault:
  assumes "get_zephyr_fetcher ctx = Inr zephyr"
    and "cls e \<noteq> MCPAtlassianNotFoundError"
    and "cls e \<noteq> MCPAtlassianAuthenticationError"
  shows "(write_access ctx \<and>
         json_loads testplan_data = Inr payload \<and>
         zephyr_create_testplan zephyr payload = Inl e \<longrightarrow>
           response (create_testplan json_loads ctx testplan_data) =
             JObj [(''success'', JBool False),
                  (''error'', JStr (''Failed to create test plan: '' @ str e))] \<and>
           logged (create_testplan json_loads ctx testplan_data) =
             [logger_exception ''Error creating test plan'' e])"
  using assms by (simp add: create_testplan_def create_testplan_fn_def create_testplan_except_def check_write_access_def)

lemma create_testrun_unexpected_fault:
  assumes "get_zephyr_fetcher ctx = Inr zephyr"
    and "cls e \<noteq> MCPAtlassianNotFoundError"
    and "cls e \<noteq> MCPAtlassianAuthenticationError"
  shows "(write_access ctx \<and>
         json_loads testrun_data = Inr payload \<and>
         zephyr_create_testrun zephyr payload = Inl e \<longrightarrow>
           response (create_testrun json_loads ctx testrun_data) =
             JObj [(''success'', JBool False),
                  (''error'', JStr (''Failed to create test run: '' @ str e))] \<and>
           logged (create_testrun json_loads ctx testrun_data) =
             [logger_exception ''Error creating test run'' e])"
  using assms by (simp add: create_testrun_def create_testrun_fn_def create_testrun_except_def check_write_access_def)

lemma create_testresult_unexpected_fault:
  assumes "get_zephyr_fetcher ctx = Inr zephyr"
    and "cls e \<noteq> MCPAtlassianNotFoundError"
    and "cls e \<noteq> MCPAtlassianAuthenticationError"
  shows "(write_access ctx \<and>
         json_loads testresult_data = Inr payload \<and>
         zephyr_create_testresult zephyr payload = Inl e \<longrightarrow>
           response (create_testresult json_loads ctx testresult_data) =
             JObj [(''success'', JBool False),
                  (''error'', JStr (''Failed to create test result: '' @ str e))] \<and>
           logged (create_testresult json_loads ctx testresult_data) =
             [logger_exception ''Error creating test result'' e])"
  using assms by (simp add: create_testresult_def create_testresult_fn_def create_testresult_except_def check_write_access_def)

lemma update_testcase_unexpected_fault:
  assumes "get_zephyr_fetcher ctx = Inr zephyr"
    and "cls e \<noteq> MCPAtlassianNotFoundError"
    and "cls e \<noteq> MCPAtlassianAuthenticationError"
  shows "(write_access ctx \<and>
         json_loads testcase_data = Inr payload \<and>
         zephyr_update_testcase zephyr test_case_key payload = Inl e \<longrightarrow>
           response (update_testcase json_loads ctx test_case_key testcase_data) =
             JObj [(''success'', JBool False),
                  (''error'', JStr (''Failed to update test case: '' @ str e))] \<and>
           logged (update_testcase json_loads ctx test_case_key testcase_data) =
             [logger_exception (''Error updating test case '' @ test_case_key) e])"
  using assms by (simp add: update_testcase_def update_testcase_fn_def update_testcase_except_def check_write_access_def)

lemma delete_testcase_unexpected_fault:
  assumes "get_zephyr_fetcher ctx = Inr zephyr"
    and "cls e \<noteq> MCPAtlassianNotFoundError"
    and "cls e \<noteq> MCPAtlassianAuthenticationError"
  shows "(write_access ctx \<and>
         zephyr_delete_testcase zephyr test_case_key = Inl e \<longrightarrow>
           response (delete_testcase ctx test_case_key) =
             JObj [(''success'', JBool False),
                  (''error'', JStr (''Failed to delete test case: '' @ str e))] \<and>
           logged (delete_testcase ctx test_case_key) =
             [logger_exception (''Error deleting test case '' @ test_case_key) e])"
  using assms by (simp add: delete_testcase_def delete_testcase_fn_def delete_testcase_except_def check_write_access_def)

lemma search_testcases_unexpected_fault:
  assumes "get_zephyr_fetcher ctx = Inr zephyr"
    and "cls e \<noteq> MCPAtlassianNotFoundError"
    and "cls e \<noteq> MCPAtlassianAuthenticationError"
  shows "(zephyr_search_testcases zephyr query fields_arg start_at max_results = Inl e \<longrightarrow>
           response (search_testcases ctx query fields_arg start_at max_results) =
             JObj [(''success'', JBool False),
                  (''error'', JStr (''Failed to search test cases: '' @ str e))] \<and>
           logged (search_testcases ctx query fields_arg start_at max_results) =
             [logger_exception ''Error searching test cases'' e])"
  using assms by (simp add: search_testcases_def search_testcases_except_def)

lemma search_testplans_unexpected_fault:
  assumes "get_zephyr_fetcher ctx = Inr zephyr"
    and "cls e \<noteq> MCPAtlassianNotFoundError"
    and "cls e \<noteq> MCPAtlassianAuthenticationError"
  shows "(zephyr_search_testplans zephyr query fields_arg start_at max_results = Inl e \<longrightarrow>
           response (search_testplans ctx query fields_arg start_at max_results) =
             JObj [(''success'', JBool False),
                  (''error'', JStr (''Failed to search test plans: '' @ str e))] \<and>
           logged (search_testplans ctx query fields_arg start_at max_results) =
             [logger_exception ''Error searching test plans'' e])"
  using assms by (simp add: search_testplans_def search_testplans_except_def)

lemma search_testruns_unexpected_fault:
  assumes "get_zephyr_fetcher ctx = Inr zephyr"
    and "cls e \<noteq> MCPAtlassianNotFoundError"
    and "cls e \<noteq> MCPAtlassianAuthenticationError"
  shows "(zephyr_search_testruns zephyr query fields_arg start_at max_results = Inl e \<longrightarrow>
           response (search_testruns ctx query fields_arg start_at max_results) =
             JObj [(''success'', JBool False),
                  (''error'', JStr (''Failed to search test runs: '' @ str e))] \<and>
           logged (search_testruns ctx query fields_arg start_at max_results) =
             [logger_exception ''Error searching test runs'' e])"
  using assms by (simp add: search_testruns_def search_testruns_except_def)

lemma get_testcase_latest_result_unexpected_fault:
  assumes "get_zephyr_fetcher ctx = Inr zephyr"
    and "cls e \<noteq> MCPAtlassianNotFoundError"
    and "cls e \<noteq> MCPAtlassianAuthenticationError"
  shows "(zephyr_get_testcase_latest_result zephyr test_case_key = Inl e \<longrightarrow>
           response (get_testcase_latest_result ctx test_case_key) =
             JObj [(''success'', JBool False),
                  (''error'', JStr (''Failed to get latest test result: '' @ str e))] \<and>
           logged (get_testcase_latest_result ctx test_case_key) =
             [logger_exception (''Error getting latest result for test case '' @ test_case_key) e])"
  using assms by (simp add: get_testcase_latest_result_def get_testcase_latest_result_except_def)

lemma get_testrun_results_unexpected_fault:
  assumes "get_zephyr_fetcher ctx = Inr zephyr"
    and "cls e \<noteq> MCPAtlassianNotFoundError"
    and "cls e \<noteq> MCPAtlassianAuthenticationError"
  shows "(zephyr_get_testrun_results zephyr test_run_key = Inl e \<longrightarrow>
           response (get_testrun_results ctx test_run_key) =
             JObj [(''success'', JBool False),
                  (''error'', JStr (''Failed to get test run results: '' @ str e))] \<and>
           logged (get_testrun_results ctx test_run_key) =
             [logger_exception (''Error getting test results for test run '' @ test_run_key) e])"
  using assms by (simp add: get_testrun_results_def get_testrun_results_except_def)

lemma get_test_steps_unexpected_fault:
  assumes "get_zephyr_fetcher ctx = Inr zephyr"
    and "cls e \<noteq> MCPAtlassianNotFoundError"
    and "cls e \<noteq> MCPAtlassianAuthenticationError"
  shows "(zephyr_get_test_steps zephyr issue_id project_id = Inl e \<and>
         \<not> (isinstance_ValueError e \<and> sublist ''not found'' (lower (str e))) \<longrightarrow>
           response (get_test_steps ctx issue_id project_id) =
             JObj [(''success'', JBool False),
                  (''error'', JStr (str e)),
                  (''issue_id'', JStr issue_id),
                  (''project_id'', JStr project_id)] \<and>
           logged (get_test_steps ctx issue_id project_id) =
             [logger_exception
                 (''Unexpected error in get_test_steps for issue '' @ squote @ issue_id @ squote @ '':'') e,
               logger_log ERROR
                 (''get_test_steps failed for issue '' @ squote @ issue_id @ squote @
                  '': An unexpected error occurred while fetching test steps.'')])"
  using assms by (simp add: get_test_steps_def get_test_steps_except_def)

lemma add_test_step_unexpected_fault:
  assumes "get_zephyr_fetcher ctx = Inr zephyr"
    and "cls e \<noteq> MCPAtlassianNotFoundError"
    and "cls e \<noteq> MCPAtlassianAuthenticationError"
  shows "(write_access ctx \<and>
         init (JStr step_arg) (optional_str data_arg) (optional_str result_arg) = Inr step_request \<and>
         zephyr_add_test_step zephyr issue_id project_id step_request = Inl e \<longrightarrow>
           response (add_test_step init ctx issue_id project_id step_arg data_arg result_arg) =
             JObj [(''success'', JBool False),
                  (''error'', JStr (str e)),
                  (''issue_id'', JStr issue_id),
                  (''project_id'', JStr project_id)] \<and>
           logged (add_test_step init ctx issue_id project_id step_arg data_arg result_arg) =
             [logger_exception
                 (''Unexpected error in add_test_step for issue '' @ squote @ issue_id @ squote @ '':'') e,
               logger_log ERROR
                 (''add_test_step failed for issue '' @ squote @ issue_id @ squote @
                  '': An unexpected error occurred while adding the test step.'')])"
  using assms by (simp add: add_test_step_def add_test_step_fn_def add_test_step_except_def check_write_access_def)

lemma add_multiple_test_steps_unexpected_fault:
  assumes "get_zephyr_fetcher ctx = Inr zephyr"
    and "cls e \<noteq> MCPAtlassianNotFoundError"
    and "cls e \<noteq> MCPAtlassianAuthenticationError"
  shows "(write_access ctx \<and>
         json_loads steps = Inr (JArr elements) \<and>
         step_requests_loop init 0 [] elements = Inr step_requests \<and>
         zephyr_add_multiple_test_steps zephyr issue_id project_id step_requests = Inl e \<longrightarrow>
           response (add_multiple_test_steps json_loads init ctx issue_id project_id steps) =
             JObj [(''success'', JBool False),
                  (''error'', JStr (str e)),
                  (''issue_id'', JStr issue_id),
                  (''project_id'', JStr project_id)] \<and>
           logged (add_multiple_test_steps json_loads init ctx issue_id project_id steps) =
             [logger_exception
                 (''Unexpected error in add_multiple_test_steps for issue '' @ squote @ issue_id @ squote @ '':'') e,
               logger_log ERROR
                 (''add_multiple_test_steps failed for issue '' @ squote @ issue_id @ squote @
                  '': An unexpected error occurred while adding test steps.'')])"
  using assms by (simp add: add_multiple_test_steps_def add_multiple_test_steps_fn_def add_multiple_test_steps_except_def check_write_access_def)

text \<open>
  C7, amended: when the client raises a fault that is neither not-found nor
  authentication, every tool answers \<^verbatim>\<open>success = false\<close> with an error made of the fault's
  own message \<^verbatim>\<open>str(e)\<close>: after the tool's fixed \<^verbatim>\<open>Failed to ...:\<close> label in the test case,
  plan, run and result tools, and bare, beside the issue and project of the request, in
  the three test step tools. Nothing else of the fault enters the envelope. The fault
  itself is logged by \<^verbatim>\<open>logger.exception\<close>, at level ERROR; the test step tools log their
  generic message after it.
\<close>

theorem unexpected_fault_envelope_and_log:
  assumes "get_zephyr_fetcher ctx = Inr zephyr"
    and "cls e \<noteq> MCPAtlassianNotFoundError"
    and "cls e \<noteq> MCPAtlassianAuthenticationError"
  shows "(zephyr_get_testcase zephyr test_case_key fields_arg = Inl e \<longrightarrow>
            response (get_testcase ctx test_case_key fields_arg) =
              JObj [(''success'', JBool False),
                  (''error'', JStr (''Failed to get test case: '' @ str e))] \<and>
            logged (get_testcase ctx test_case_key fields_arg) =
              [logger_exception (''Error getting test case '' @ test_case_key) e]) \<and>
         (zephyr_get_testplan zephyr test_plan_key fields_arg = Inl e \<longrightarrow>
            response (get_testplan ctx test_plan_key fields_arg) =
              JObj [(''success'', JBool False),
                  (''error'', JStr (''Failed to get test plan: '' @ str e))] \<and>
            logged (get_testplan ctx test_plan_key fields_arg) =
              [logger_exception (''Error getting test plan '' @ test_plan_key) e]) \<and>
         (zephyr_get_testrun zephyr test_run_key fields_arg = Inl e \<longrightarrow>
            response (get_testrun ctx test_run_key fields_arg) =
              JObj [(''success'', JBool False),
                  (''error'', JStr (''Failed to get test run: '' @ str e))] \<and>
            logged (get_testrun ctx test_run_key fields_arg) =
              [logger_exception (''Error getting test run '' @ test_run_key) e]) \<and>
         (write_access ctx \<and>
          json_loads testcase_data = Inr payload \<and>
          zephyr_create_testcase zephyr payload = Inl e \<longrightarrow>
            response (create_testcase json_loads ctx testcase_data) =
              JObj [(''success'', JBool False),
                  (''error'', JStr (''Failed to create test case: '' @ str e))] \<and>
            logged (create_testcase json_loads ctx testcase_data) =
              [logger_exception ''Error creating test case'' e]) \<and>
         (write_access ctx \<and>
          json_loads testplan_data = Inr payload \<and>
          zephyr_create_testplan zephyr payload = Inl e \<longrightarrow>
            response (create_testplan json_loads ctx testplan_data) =
              JObj [(''success'', JBool False),
                  (''error'', JStr (''Failed to create test plan: '' @ str e))] \<and>
            logged (create_testplan json_loads ctx testplan_data) =
              [logger_exception ''Error creating test plan'' e]) \<and>
         (write_access ctx \<and>
          json_loads testrun_data = Inr payload \<and>
          zephyr_create_testrun zephyr payload = Inl e \<longrightarrow>
            response (create_testrun json_loads ctx testrun_data) =
              JObj [(''success'', JBool False),
                  (''error'', JStr (''Failed to create test run: '' @ str e))] \<and>
            logged (create_testrun json_loads ctx testrun_data) =
              [logger_exception ''Error creating test run'' e]) \<and>
         (write_access ctx \<and>
          json_loads testresult_data = Inr payload \<and>
          zephyr_create_testresult zephyr payload = Inl e \<longrightarrow>
            response (create_testresult json_loads ctx testresult_data) =
              JObj [(''success'', JBool False),
                  (''error'', JStr (''Failed to create test result: '' @ str e))] \<and>
            logged (create_testresult json_loads ctx testresult_data) =
              [logger_exception ''Error creating test result'' e]) \<and>
         (write_access ctx \<and>
          json_loads testcase_data = Inr payload \<and>
          zephyr_update_testcase zephyr test_case_key payload = Inl e \<longrightarrow>
            response (update_testcase json_loads ctx test_case_key testcase_data) =
              JObj [(''success'', JBool False),
                  (''error'', JStr (''Failed to update test case: '' @ str e))] \<and>
            logged (update_testcase json_loads ctx test_case_key testcase_data) =
              [logger_exception (''Error updating test case '' @ test_case_key) e]) \<and>
         (write_access ctx \<and>
          zephyr_delete_testcase zephyr test_case_key = Inl e \<longrightarrow>
            response (delete_testcase ctx test_case_key) =
              JObj [(''success'', JBool False),
                  (''error'', JStr (''Failed to delete test case: '' @ str e))] \<and>
            logged (delete_testcase ctx test_case_key) =
              [logger_exception (''Error deleting test case '' @ test_case_key) e]) \<and>
         (zephyr_search_testcases zephyr query fields_arg start_at max_results = Inl e \<longrightarrow>
            response (search_testcases ctx query fields_arg start_at max_results) =
              JObj [(''success'', JBool False),
                  (''error'', JStr (''Failed to search test cases: '' @ str e))] \<and>
            logged (search_testcases ctx query fields_arg start_at max_results) =
              [logger_exception ''Error searching test cases'' e]) \<and>
         (zephyr_search_testplans zephyr query fields_arg start_at max_results = Inl e \<longrightarrow>
            response (search_testplans ctx query fields_arg start_at max_results) =
              JObj [(''success'', JBool False),
                  (''error'', JStr (''Failed to search test plans: '' @ str e))] \<and>
            logged (search_testplans ctx query fields_arg start_at max_results) =
              [logger_exception ''Error searching test plans'' e]) \<and>
         (zephyr_search_testruns zephyr query fields_arg start_at max_results = Inl e \<longrightarrow>
            response (search_testruns ctx query fields_arg start_at max_results) =
              JObj [(''success'', JBool False),
                  (''error'', JStr (''Failed to search test runs: '' @ str e))] \<and>
            logged (search_testruns ctx query fields_arg start_at max_results) =
              [logger_exception ''Error searching test runs'' e]) \<and>
         (zephyr_get_testcase_latest_result zephyr test_case_key = Inl e \<longrightarrow>
            response (get_testcase_latest_result ctx test_case_key) =
              JObj [(''success'', JBool False),
                  (''error'', JStr (''Failed to get latest test result: '' @ str e))] \<and>
            logged (get_testcase_latest_result ctx test_case_key) =
              [logger_exception (''Error getting latest result for test case '' @ test_case_key) e]) \<and>
         (zephyr_get_testrun_results zephyr test_run_key = Inl e \<longrightarrow>
            response (get_testrun_results ctx test_run_key) =
              JObj [(''success'', JBool False),
                  (''error'', JStr (''Failed to get test run results: '' @ str e))] \<and>
            logged (get_testrun_results ctx test_run_key) =
              [logger_exception (''Error getting test results for test run '' @ test_run_key) e]) \<and>
         (zephyr_get_test_steps zephyr issue_id project_id = Inl e \<and>
          \<not> (isinstance_ValueError e \<and> sublist ''not found'' (lower (str e))) \<longrightarrow>
            response (get_test_steps ctx issue_id project_id) =
              JObj [(''success'', JBool False),
                  (''error'', JStr (str e)),
                  (''issue_id'', JStr issue_id),
                  (''project_id'', JStr project_id)] \<and>
            logged (get_test_steps ctx issue_id project_id) =
              [logger_exception
                 (''Unexpected error in get_test_steps for issue '' @ squote @ issue_id @ squote @ '':'') e,
               logger_log ERROR
                 (''get_test_steps failed for issue '' @ squote @ issue_id @ squote @
                  '': An unexpected error occurred while fetching test steps.'')]) \<and>
         (write_access ctx \<and>
          init (JStr step_arg) (optional_str data_arg) (optional_str result_arg) = Inr step_request \<and>
          zephyr_add_test_step zephyr issue_id project_id step_request = Inl e \<longrightarrow>
            response (add_test_step init ctx issue_id project_id step_arg data_arg result_arg) =
              JObj [(''success'', JBool False),
                  (''error'', JStr (str e)),
                  (''issue_id'', JStr issue_id),
                  (''project_id'', JStr project_id)] \<and>
            logged (add_test_step init ctx issue_id project_id step_arg data_arg result_arg) =
              [logger_exception
                 (''Unexpected error in add_test_step for issue '' @ squote @ issue_id @ squote @ '':'') e,
               logger_log ERROR
                 (''add_test_step failed for issue '' @ squote @ issue_id @ squote @
                  '': An unexpected error occurred while adding the test step.'')]) \<and>
         (write_access ctx \<and>
          json_loads steps = Inr (JArr elements) \<and>
          step_requests_loop init 0 [] elements = Inr step_requests \<and>
          zephyr_add_multiple_test_steps zephyr issue_id project_id step_requests = Inl e \<longrightarrow>
            response (add_multiple_test_steps json_loads init ctx issue_id project_id steps) =
              JObj [(''success'', JBool False),
                  (''error'', JStr (str e)),
                  (''issue_id'', JStr issue_id),
                  (''project_id'', JStr project_id)] \<and>
            logged (add_multiple_test_steps json_loads init ctx issue_id project_id steps) =
              [logger_exception
                 (''Unexpected error in add_multiple_test_steps for issue '' @ squote @ issue_id @ squote @ '':'') e,
               logger_log ERROR
                 (''add_multiple_test_steps failed for issue '' @ squote @ issue_id @ squote @
                  '': An unexpected error occurred while adding test steps.'')])"
  by (intro conjI
      get_testcase_unexpected_fault [OF assms]
      get_testplan_unexpected_fault [OF assms]
      get_testrun_unexpected_fault [OF assms]
      create_testcase_unexpected_fault [OF assms]
      create_testplan_unexpected_fault [OF assms]
      create_testrun_unexpected_fault [OF assms]
      create_testresult_unexpected_fault [OF assms]
      update_testcase_unexpected_fault [OF assms]
      delete_testcase_unexpected_fault [OF assms]
      search_testcases_unexpected_fault [OF assms]
      search_testplans_unexpected_fault [OF assms]
      search_testruns_unexpected_fault [OF assms]
      get_testcase_latest_result_unexpected_fault [OF assms]
      get_testrun_results_unexpected_fault [OF assms]
      get_test_steps_unexpected_fault [OF assms]
      add_test_step_unexpected_fault [OF assms]
      add_multiple_test_steps_unexpected_fault [OF assms])

lemma connection_refused_class:
  "cls connection_refused \<noteq> MCPAtlassianNotFoundError"
  "cls connection_refused \<noteq> MCPAtlassianAuthenticationError"
  "\<not> isinstance_ValueError connection_refused"
  "str connection_refused = ''Connection refused''"
  "\<not> (isinstance_ValueError connection_refused \<and>
      sublist ''not found'' (lower (str connection_refused)))"
  by (simp_all add: connection_refused_def isinstance_ValueError_def)

theorem unexpected_fault_envelope_and_log_witness:
  "get_zephyr_fetcher (context_with True failing_client) = Inr failing_client \<and>
   cls connection_refused \<noteq> MCPAtlassianNotFoundError \<and>
   cls connection_refused \<noteq> MCPAtlassianAuthenticationError \<and>
   zephyr_get_testcase failing_client ''JQA-T1'' None = Inl connection_refused \<and>
   response (get_testcase (context_with True failing_client) ''JQA-T1'' None) =
     JObj [(''success'', JBool False),
           (''error'', JStr ''Failed to get test case: Connection refused'')] \<and>
   logged (get_testcase (context_with True failing_client) ''JQA-T1'' None) =
     [logger_exception ''Error getting test case JQA-T1'' connection_refused] \<and>
   zephyr_get_test_steps failing_client ''12345'' ''10000'' = Inl connection_refused \<and>
   response (get_test_steps (context_with True failing_client) ''12345'' ''10000'') =
     JObj [(''success'', JBool False),
           (''error'', JStr ''Connection refused''),
           (''issue_id'', JStr ''12345''),
           (''project_id'', JStr ''10000'')] \<and>
   logged (get_test_steps (context_with True failing_client) ''12345'' ''10000'') =
     [logger_exception ''Unexpected error in get_test_steps for issue '12345':''
        connection_refused,
      logger_log ERROR
        ''get_test_steps failed for issue '12345': An unexpected error occurred while fetching test steps.'']"
proof -
  have f: "get_zephyr_fetcher (context_with True failing_client) = Inr failing_client"
    by (rule context_with_fetcher)
  note th = unexpected_fault_envelope_and_log
    [OF f connection_refused_class(1) connection_refused_class(2)]
  have g: "zephyr_get_testcase failing_client ''JQA-T1'' None = Inl connection_refused"
    by (simp add: failing_client_def)
  have s: "zephyr_get_test_steps failing_client ''12345'' ''10000'' = Inl connection_refused"
    by (simp add: failing_client_def)
  note c1 = th [THEN conjunct1, THEN mp, OF g]
  note c2 = th [THEN conjunct2, THEN conjunct2, THEN conjunct2, THEN conjunct2,
      THEN conjunct2, THEN conjunct2, THEN conjunct2, THEN conjunct2, THEN conjunct2,
      THEN conjunct2, THEN conjunct2, THEN conjunct2, THEN conjunct2, THEN conjunct2,
      THEN conjunct1, THEN mp, OF conjI [OF s connection_refused_class(5)]]
  from c1 c2 f g s connection_refused_class(1,2) show ?thesis
    by (simp add: connection_refused_class(4))
qed

text \<open>C7 as stated fails: the error returned is not a generic message. In
  \<^verbatim>\<open>get_test_steps\<close> it is the message of the fault and not the generic sentence the
  tool builds for its log; in \<^verbatim>\<open>get_testcase\<close> the message of the fault follows the label.\<close>

theorem unexpected_fault_generic_message_counterexample:
  "error_string
       (response (get_test_steps (context_with False unexpected_fault_client) ''12345'' ''10000'')) =
     str internal_fault \<and>
   error_string
       (response (get_test_steps (context_with False unexpected_fault_client) ''12345'' ''10000'')) \<noteq>
     ''An unexpected error occurred while fetching test steps.'' \<and>
   error_string (response (get_testcase (context_with False failing_client) ''JQA-T1'' None)) =
     ''Failed to get test case: Connection refused''"
proof -
  have v: "\<not> isinstance_ValueError internal_fault"
    by (simp add: isinstance_ValueError_def internal_fault_def)
  have a: "cls internal_fault \<noteq> MCPAtlassianAuthenticationError"
    by (simp add: internal_fault_def)
  have run: "get_test_steps (context_with False unexpected_fault_client) ''12345'' ''10000'' =
      get_test_steps_except ''12345'' ''10000'' internal_fault [Get_test_steps ''12345'' ''10000'']"
    by (simp add: get_test_steps_def context_with_fetcher unexpected_fault_client_def)
  have m: "str internal_fault \<noteq> ''An unexpected error occurred while fetching test steps.''"
    by (simp add: internal_fault_def)
  have t: "get_testcase (context_with False failing_client) ''JQA-T1'' None =
      get_testcase_except ''JQA-T1'' connection_refused [Get_testcase ''JQA-T1'' None]"
    by (simp add: get_testcase_def context_with_fetcher failing_client_def)
  show ?thesis
    unfolding run t using v a m
    by (simp add: get_test_steps_except_def get_testcase_except_def error_string_envelope
        connection_refused_def)
qed

subsection \<open>Faults in the test step tools\<close>

text \<open>C8 as stated fails: the error of the envelope is the bare message of the fault,
  without the prefix, and the authentication fault is logged at the level of an
  unexpected one.\<close>

theorem auth_fault_counterexample:
  "error_string
       (response (get_test_steps (context_with True auth_fault_client) ''12345'' ''10000'')) =
     ''403 Forbidden'' \<and>
   \<not> prefix ''Authentication/Permission Error:''
       (error_string
          (response (get_test_steps (context_with True auth_fault_client) ''12345'' ''10000''))) \<and>
   map (\<lambda>r. levelno (level r))
       (logged (get_test_steps (context_with True auth_fault_client) ''12345'' ''10000'')) =
     [40] \<and>
   map (\<lambda>r. levelno (level r))
       (logged (get_test_steps (context_with True unexpected_fault_client) ''12345'' ''10000'')) =
     [40, 40]"
proof -
  have r1: "get_test_steps (context_with True auth_fault_client) ''12345'' ''10000'' =
      get_test_steps_except ''12345'' ''10000'' permission_denied
        [Get_test_steps ''12345'' ''10000'']"
    by (simp add: get_test_steps_def context_with_fetcher auth_fault_client_def)
  have r2: "get_test_steps (context_with True unexpected_fault_client) ''12345'' ''10000'' =
      get_test_steps_except ''12345'' ''10000'' internal_fault [Get_test_steps ''12345'' ''10000'']"
    by (simp add: get_test_steps_def context_with_fetcher unexpected_fault_client_def)
  have p: "\<not> isinstance_ValueError permission_denied"
      "cls permission_denied = MCPAtlassianAuthenticationError"
      "str permission_denied = ''403 Forbidden''"
    by (simp_all add: isinstance_ValueError_def permission_denied_def)
  have i: "\<not> isinstance_ValueError internal_fault"
      "cls internal_fault \<noteq> MCPAtlassianAuthenticationError"
    by (simp_all add: isinstance_ValueError_def internal_fault_def)
  show ?thesis
    unfolding r1 r2 using p i
    by (simp add: get_test_steps_except_def error_string_envelope logger_log_def
        logger_exception_def)
qed

lemma auth_is_not_ValueError:
  "cls e = MCPAtlassianAuthenticationError \<Longrightarrow> \<not> isinstance_ValueError e"
  by (simp add: isinstance_ValueError_def)

text \<open>
  C8, amended: when the client raises the authentication fault in \<^verbatim>\<open>get_test_steps\<close>,
  \<^verbatim>\<open>add_test_step\<close> or \<^verbatim>\<open>add_multiple_test_steps\<close>, the tool answers \<^verbatim>\<open>success = false\<close>
  and logs one record, at level ERROR and without the exception, whose message carries
  the prefix \<^verbatim>\<open>Authentication/Permission Error:\<close> before the fault's message.
\<close>

theorem auth_fault_is_logged_with_prefix:
  assumes "get_zephyr_fetcher ctx = Inr zephyr"
    and "cls e = MCPAtlassianAuthenticationError"
  shows "(zephyr_get_test_steps zephyr issue_id project_id = Inl e \<longrightarrow>
            envelope_get (response (get_test_steps ctx issue_id project_id)) ''success'' =
              Some (JBool False) \<and>
            logged (get_test_steps ctx issue_id project_id) =
              [logger_log ERROR
                 (''get_test_steps failed for issue '' @ squote @ issue_id @ squote @
                  '': Authentication/Permission Error: '' @ str e)]) \<and>
         (write_access ctx \<and>
          init (JStr step_arg) (optional_str data_arg) (optional_str result_arg) =
            Inr step_request \<and>
          zephyr_add_test_step zephyr issue_id project_id step_request = Inl e \<longrightarrow>
            envelope_get
              (response (add_test_step init ctx issue_id project_id step_arg data_arg result_arg))
              ''success'' = Some (JBool False) \<and>
            logged (add_test_step init ctx issue_id project_id step_arg data_arg result_arg) =
              [logger_log ERROR
                 (''add_test_step failed for issue '' @ squote @ issue_id @ squote @
                  '': Authentication/Permission Error: '' @ str e)]) \<and>
         (write_access ctx \<and>
          json_loads steps = Inr (JArr elements) \<and>
          step_requests_loop init 0 [] elements = Inr step_requests \<and>
          zephyr_add_multiple_test_steps zephyr issue_id project_id step_requests = Inl e \<longrightarrow>
            envelope_get
              (response (add_multiple_test_steps json_loads init ctx issue_id project_id steps))
              ''success'' = Some (JBool False) \<and>
            logged (add_multiple_test_steps json_loads init ctx issue_id project_id steps) =
              [logger_log ERROR
                 (''add_multiple_test_steps failed for issue '' @ squote @ issue_id @ squote @
                  '': Authentication/Permission Error: '' @ str e)])"
proof (intro conjI impI)
  assume r: "zephyr_get_test_steps zephyr issue_id project_id = Inl e"
  have run: "get_test_steps ctx issue_id project_id =
      get_test_steps_except issue_id project_id e [Get_test_steps issue_id project_id]"
    using assms(1) r by (simp add: get_test_steps_def)
  show "envelope_get (response (get_test_steps ctx issue_id project_id)) ''success'' =
      Some (JBool False)"
    unfolding run by (simp add: get_test_steps_except_def envelope_get_def split: prod.splits)
  show "logged (get_test_steps ctx issue_id project_id) =
      [logger_log ERROR
         (''get_test_steps failed for issue '' @ squote @ issue_id @ squote @
          '': Authentication/Permission Error: '' @ str e)]"
    unfolding run using assms(2) auth_is_not_ValueError [OF assms(2)]
    by (simp add: get_test_steps_except_def)
next
  assume h: "write_access ctx \<and>
      init (JStr step_arg) (optional_str data_arg) (optional_str result_arg) = Inr step_request \<and>
      zephyr_add_test_step zephyr issue_id project_id step_request = Inl e"
  have run: "add_test_step init ctx issue_id project_id step_arg data_arg result_arg =
      add_test_step_except issue_id project_id e [Add_test_step issue_id project_id step_request]"
    using assms(1) h by (simp add: add_test_step_def add_test_step_fn_def check_write_access_def)
  show "envelope_get
      (response (add_test_step init ctx issue_id project_id step_arg data_arg result_arg))
      ''success'' = Some (JBool False)"
    unfolding run by (simp add: add_test_step_except_def envelope_get_def split: prod.splits)
  show "logged (add_test_step init ctx issue_id project_id step_arg data_arg result_arg) =
      [logger_log ERROR
         (''add_test_step failed for issue '' @ squote @ issue_id @ squote @
          '': Authentication/Permission Error: '' @ str e)]"
    unfolding run using assms(2) by (simp add: add_test_step_except_def)
next
  assume h: "write_access ctx \<and>
      json_loads steps = Inr (JArr elements) \<and>
      step_requests_loop init 0 [] elements = Inr step_requests \<and>
      zephyr_add_multiple_test_steps zephyr issue_id project_id step_requests = Inl e"
  have run: "add_multiple_test_steps json_loads init ctx issue_id project_id steps =
      add_multiple_test_steps_except issue_id project_id e
        [Add_multiple_test_steps issue_id project_id step_requests]"
    using assms(1) h
    by (simp add: add_multiple_test_steps_def add_multiple_test_steps_fn_def
        check_write_access_def)
  show "envelope_get
      (response (add_multiple_test_steps json_loads init ctx issue_id project_id steps))
      ''success'' = Some (JBool False)"
    unfolding run
    by (simp add: add_multiple_test_steps_except_def envelope_get_def split: prod.splits)
  show "logged (add_multiple_test_steps json_loads init ctx issue_id project_id steps) =
      [logger_log ERROR
         (''add_multiple_test_steps failed for issue '' @ squote @ issue_id @ squote @
          '': Authentication/Permission Error: '' @ str e)]"
    unfolding run using assms(2) by (simp add: add_multiple_test_steps_except_def)
qed

theorem auth_fault_is_logged_with_prefix_witness:
  "get_zephyr_fetcher (context_with True auth_fault_client) = Inr auth_fault_client \<and>
   cls permission_denied = MCPAtlassianAuthenticationError \<and>
   zephyr_get_test_steps auth_fault_client ''12345'' ''10000'' = Inl permission_denied \<and>
   logged (get_test_steps (context_with True auth_fault_client) ''12345'' ''10000'') =
     [logger_log ERROR
        ''get_test_steps failed for issue '12345': Authentication/Permission Error: 403 Forbidden''] \<and>
   write_access (context_with True auth_fault_client) \<and>
   zephyr_add_test_step auth_fault_client ''12345'' ''10000'' (StepRequest ''Submit'' None None) =
     Inl permission_denied \<and>
   logged (add_test_step TestStepRequest (context_with True auth_fault_client) ''12345'' ''10000''
       ''Submit'' None None) =
     [logger_log ERROR
        ''add_test_step failed for issue '12345': Authentication/Permission Error: 403 Forbidden'']"
proof -
  have f: "get_zephyr_fetcher (context_with True auth_fault_client) = Inr auth_fault_client"
    by (rule context_with_fetcher)
  have c: "cls permission_denied = MCPAtlassianAuthenticationError"
    by (simp add: permission_denied_def)
  have s: "str permission_denied = ''403 Forbidden''"
    by (simp add: permission_denied_def)
  have w: "write_access (context_with True auth_fault_client)"
    by (simp add: context_with_write_access)
  have g: "zephyr_get_test_steps auth_fault_client ''12345'' ''10000'' = Inl permission_denied"
    by (simp add: auth_fault_client_def)
  have t: "TestStepRequest (JStr ''Submit'') (optional_str None) (optional_str None) =
      Inr (StepRequest ''Submit'' None None)"
    by (simp add: TestStepRequest_def optional_str_def optional_string_def)
  have b: "zephyr_add_test_step auth_fault_client ''12345'' ''10000''
      (StepRequest ''Submit'' None None) = Inl permission_denied"
    by (simp add: auth_fault_client_def)
  note th = auth_fault_is_logged_with_prefix [OF f c, of "''12345''" "''10000''"
      TestStepRequest "''Submit''" None None "StepRequest ''Submit'' None None"]
  from th g have l1:
    "logged (get_test_steps (context_with True auth_fault_client) ''12345'' ''10000'') =
      [logger_log ERROR
         (''get_test_steps failed for issue '' @ squote @ ''12345'' @ squote @
          '': Authentication/Permission Error: '' @ str permission_denied)]"
    by blast
  from th w t b have l2:
    "logged (add_test_step TestStepRequest (context_with True auth_fault_client) ''12345''
        ''10000'' ''Submit'' None None) =
      [logger_log ERROR
         (''add_test_step failed for issue '' @ squote @ ''12345'' @ squote @
          '': Authentication/Permission Error: '' @ str permission_denied)]"
    by blast
  from l1 l2 f c g w b show ?thesis
    by (simp add: s)
qed

subsection \<open>Validation of a batch\<close>











end
